theory Spec2Isabelle
  imports Complex_Main "HOL-Library.Sublist"
begin

section \<open>JavaScript strings and numbers\<close>

text \<open>
  Strings are lists of 8-bit characters. The catalog, the per-letter table and the
  synthesized labels of the program are ASCII, and \<open>toLowerCase\<close> is modelled on the
  ASCII letters (\<open>A\<close> to \<open>Z\<close>, codes 65 to 90, move up by 32): every other character is
  left as it is. A query is read as ASCII text.
\<close>

definition toLowerChar :: "char \<Rightarrow> char" where
  "toLowerChar c =
     (let n = (of_char c :: nat)
      in if 65 \<le> n \<and> n \<le> 90 then char_of (n + 32) else c)"

definition toLowerCase :: "string \<Rightarrow> string" where
  "toLowerCase s = map toLowerChar s"

text \<open>\<open>s.startsWith(t)\<close> and \<open>s.includes(t)\<close>.\<close>

definition startsWith :: "string \<Rightarrow> string \<Rightarrow> bool" where
  "startsWith s t = prefix t s"

fun str_includes :: "string \<Rightarrow> string \<Rightarrow> bool" where
  "str_includes [] t = (t = [])"
| "str_includes (c # s) t = (startsWith (c # s) t \<or> str_includes s t)"

text \<open>\<open>n.toString()\<close> of a non-negative integer: its decimal digits.\<close>

definition digitChar :: "nat \<Rightarrow> char" where
  "digitChar d = char_of (48 + d)"

fun toString :: "nat \<Rightarrow> string" where
  "toString n =
     (if n < 10 then [digitChar n] else toString (n div 10) @ [digitChar (n mod 10)])"

declare toString.simps [simp del]

text \<open>
  \<open>x.toFixed(2)\<close>: the sign, then the integer \<open>n\<close> nearest to \<open>100 * |x|\<close> (the larger
  one of two nearest), padded to three digits, with the point before the last two. A
  finite JavaScript number is a rational; the definition covers magnitudes below
  \<open>10^21\<close>, where JavaScript still prints positional notation.
\<close>

definition toFixed2 :: "rat \<Rightarrow> string" where
  "toFixed2 x =
     (let n = nat \<lfloor>\<bar>x\<bar> * 100 + 1 / 2\<rfloor>;
          m = toString n;
          m = (if length m \<le> 2 then replicate (3 - length m) CHR ''0'' @ m else m);
          k = length m
      in (if x < 0 then ''-'' else []) @ take (k - 2) m @ ''.'' @ drop (k - 2) m)"

section \<open>Data model\<close>

text \<open>An entry of \<open>popularChemicals\<close> (src/data/popularChemicals.ts).\<close>

record PopularChemical =
  p_cid :: nat
  p_name :: string
  p_formula :: string
  p_category :: string

text \<open>\<open>PubChemCompound\<close>, the record the PubChem service returns.\<close>

record PubChemCompound =
  cid :: nat
  name :: string
  molecularFormula :: string
  molecularWeight :: rat
  iupacName :: "string option"
  canonicalSmiles :: "string option"

text \<open>\<open>Chemical\<close>, the record the hook exposes; its \<open>id\<close> is a string.\<close>

record Chemical =
  chem_id :: string
  chem_name :: string
  chem_formula :: string
  casNumber :: string
  category :: string
  hazardLevel :: string
  description :: string

definition popularChemicals :: "PopularChemical list" where
  "popularChemicals = [
    \<lparr>p_cid = 702, p_name = ''Ethanol'', p_formula = ''C2H6O'', p_category = ''Solvent''\<rparr>,
    \<lparr>p_cid = 180, p_name = ''Acetone'', p_formula = ''C3H6O'', p_category = ''Solvent''\<rparr>,
    \<lparr>p_cid = 887, p_name = ''Methanol'', p_formula = ''CH4O'', p_category = ''Solvent''\<rparr>,
    \<lparr>p_cid = 3776, p_name = ''Isopropanol'', p_formula = ''C3H8O'', p_category = ''Solvent''\<rparr>,
    \<lparr>p_cid = 241, p_name = ''Benzene'', p_formula = ''C6H6'', p_category = ''Solvent''\<rparr>,
    \<lparr>p_cid = 1140, p_name = ''Toluene'', p_formula = ''C7H8'', p_category = ''Solvent''\<rparr>,
    \<lparr>p_cid = 8078, p_name = ''Chloroform'', p_formula = ''CHCl3'', p_category = ''Solvent''\<rparr>,
    \<lparr>p_cid = 6212, p_name = ''Ethyl acetate'', p_formula = ''C4H8O2'', p_category = ''Solvent''\<rparr>,
    \<lparr>p_cid = 6569, p_name = ''Diethyl ether'', p_formula = ''C4H10O'', p_category = ''Solvent''\<rparr>,
    \<lparr>p_cid = 8252, p_name = ''Dichloromethane'', p_formula = ''CH2Cl2'', p_category = ''Solvent''\<rparr>,
    \<lparr>p_cid = 1118, p_name = ''Sulfuric acid'', p_formula = ''H2SO4'', p_category = ''Acid''\<rparr>,
    \<lparr>p_cid = 313, p_name = ''Hydrochloric acid'', p_formula = ''HCl'', p_category = ''Acid''\<rparr>,
    \<lparr>p_cid = 944, p_name = ''Nitric acid'', p_formula = ''HNO3'', p_category = ''Acid''\<rparr>,
    \<lparr>p_cid = 176, p_name = ''Acetic acid'', p_formula = ''C2H4O2'', p_category = ''Acid''\<rparr>,
    \<lparr>p_cid = 1032, p_name = ''Phosphoric acid'', p_formula = ''H3PO4'', p_category = ''Acid''\<rparr>,
    \<lparr>p_cid = 284, p_name = ''Formic acid'', p_formula = ''CH2O2'', p_category = ''Acid''\<rparr>,
    \<lparr>p_cid = 338, p_name = ''Citric acid'', p_formula = ''C6H8O7'', p_category = ''Acid''\<rparr>,
    \<lparr>p_cid = 1110, p_name = ''Carbonic acid'', p_formula = ''H2CO3'', p_category = ''Acid''\<rparr>,
    \<lparr>p_cid = 14798, p_name = ''Sodium hydroxide'', p_formula = ''NaOH'', p_category = ''Base''\<rparr>,
    \<lparr>p_cid = 14797, p_name = ''Potassium hydroxide'', p_formula = ''KOH'', p_category = ''Base''\<rparr>,
    \<lparr>p_cid = 222, p_name = ''Ammonia'', p_formula = ''NH3'', p_category = ''Base''\<rparr>,
    \<lparr>p_cid = 14917, p_name = ''Calcium hydroxide'', p_formula = ''Ca(OH)2'', p_category = ''Base''\<rparr>,
    \<lparr>p_cid = 16211, p_name = ''Sodium carbonate'', p_formula = ''Na2CO3'', p_category = ''Base''\<rparr>,
    \<lparr>p_cid = 2244, p_name = ''Aspirin'', p_formula = ''C9H8O4'', p_category = ''Pharmaceutical''\<rparr>,
    \<lparr>p_cid = 1983, p_name = ''Acetaminophen'', p_formula = ''C8H9NO2'', p_category = ''Pharmaceutical''\<rparr>,
    \<lparr>p_cid = 3672, p_name = ''Ibuprofen'', p_formula = ''C13H18O2'', p_category = ''Pharmaceutical''\<rparr>,
    \<lparr>p_cid = 2519, p_name = ''Caffeine'', p_formula = ''C8H10N4O2'', p_category = ''Pharmaceutical''\<rparr>,
    \<lparr>p_cid = 5090, p_name = ''Glucose'', p_formula = ''C6H12O6'', p_category = ''Pharmaceutical''\<rparr>,
    \<lparr>p_cid = 5988, p_name = ''Penicillin'', p_formula = ''C16H18N2O4S'', p_category = ''Pharmaceutical''\<rparr>,
    \<lparr>p_cid = 2157, p_name = ''Morphine'', p_formula = ''C17H19NO3'', p_category = ''Pharmaceutical''\<rparr>,
    \<lparr>p_cid = 5353740, p_name = ''Amoxicillin'', p_formula = ''C16H19N3O5S'', p_category = ''Pharmaceutical''\<rparr>,
    \<lparr>p_cid = 977, p_name = ''Oxygen'', p_formula = ''O2'', p_category = ''Element''\<rparr>,
    \<lparr>p_cid = 783, p_name = ''Hydrogen'', p_formula = ''H2'', p_category = ''Element''\<rparr>,
    \<lparr>p_cid = 947, p_name = ''Nitrogen'', p_formula = ''N2'', p_category = ''Element''\<rparr>,
    \<lparr>p_cid = 280, p_name = ''Carbon dioxide'', p_formula = ''CO2'', p_category = ''Element''\<rparr>,
    \<lparr>p_cid = 962, p_name = ''Water'', p_formula = ''H2O'', p_category = ''Element''\<rparr>,
    \<lparr>p_cid = 24823, p_name = ''Sodium chloride'', p_formula = ''NaCl'', p_category = ''Salt''\<rparr>,
    \<lparr>p_cid = 5460341, p_name = ''Calcium chloride'', p_formula = ''CaCl2'', p_category = ''Salt''\<rparr>,
    \<lparr>p_cid = 6337, p_name = ''Formaldehyde'', p_formula = ''CH2O'', p_category = ''Organic''\<rparr>,
    \<lparr>p_cid = 174, p_name = ''Ethylene'', p_formula = ''C2H4'', p_category = ''Organic''\<rparr>,
    \<lparr>p_cid = 6544, p_name = ''Propane'', p_formula = ''C3H8'', p_category = ''Organic''\<rparr>,
    \<lparr>p_cid = 7843, p_name = ''Butane'', p_formula = ''C4H10'', p_category = ''Organic''\<rparr>,
    \<lparr>p_cid = 8058, p_name = ''Hexane'', p_formula = ''C6H14'', p_category = ''Organic''\<rparr>,
    \<lparr>p_cid = 297, p_name = ''Methane'', p_formula = ''CH4'', p_category = ''Organic''\<rparr>,
    \<lparr>p_cid = 6276, p_name = ''Ethane'', p_formula = ''C2H6'', p_category = ''Organic''\<rparr>,
    \<lparr>p_cid = 753, p_name = ''Glycerol'', p_formula = ''C3H8O3'', p_category = ''Organic''\<rparr>,
    \<lparr>p_cid = 5793, p_name = ''Sucrose'', p_formula = ''C12H22O11'', p_category = ''Organic''\<rparr>,
    \<lparr>p_cid = 5282230, p_name = ''Fructose'', p_formula = ''C6H12O6'', p_category = ''Organic''\<rparr>,
    \<lparr>p_cid = 784, p_name = ''Hydrogen peroxide'', p_formula = ''H2O2'', p_category = ''Oxidizer''\<rparr>,
    \<lparr>p_cid = 23925, p_name = ''Sodium bicarbonate'', p_formula = ''NaHCO3'', p_category = ''Base''\<rparr>,
    \<lparr>p_cid = 5462309, p_name = ''Potassium permanganate'', p_formula = ''KMnO4'', p_category = ''Oxidizer''\<rparr>,
    \<lparr>p_cid = 24437, p_name = ''Sodium hypochlorite'', p_formula = ''NaClO'', p_category = ''Oxidizer''\<rparr>,
    \<lparr>p_cid = 24860, p_name = ''Calcium carbonate'', p_formula = ''CaCO3'', p_category = ''Salt''\<rparr>,
    \<lparr>p_cid = 7847, p_name = ''Phenol'', p_formula = ''C6H6O'', p_category = ''Organic''\<rparr>,
    \<lparr>p_cid = 996, p_name = ''Urea'', p_formula = ''CH4N2O'', p_category = ''Organic''\<rparr>,
    \<lparr>p_cid = 1031, p_name = ''Pyridine'', p_formula = ''C5H5N'', p_category = ''Organic''\<rparr>,
    \<lparr>p_cid = 6029, p_name = ''Aniline'', p_formula = ''C6H7N'', p_category = ''Organic''\<rparr>,
    \<lparr>p_cid = 6324, p_name = ''Styrene'', p_formula = ''C8H8'', p_category = ''Organic''\<rparr>
  ]"

definition convertPopularToChemical :: "PopularChemical \<Rightarrow> Chemical" where
  "convertPopularToChemical popular =
     \<lparr>chem_id = toString (p_cid popular),
      chem_name = p_name popular,
      chem_formula = p_formula popular,
      casNumber = [],
      category = p_category popular,
      hazardLevel = ''Moderate'',
      description = ''Common '' @ toLowerCase (p_category popular)\<rparr>"

definition convertPubChemToChemical :: "PubChemCompound \<Rightarrow> Chemical" where
  "convertPubChemToChemical compound =
     \<lparr>chem_id = toString (cid compound),
      chem_name = name compound,
      chem_formula = molecularFormula compound,
      casNumber = [],
      category = ''Organic'',
      hazardLevel = ''Moderate'',
      description = ''MW: '' @ toFixed2 (molecularWeight compound) @ '' g/mol''\<rparr>"

section \<open>Phase 1: the cached search\<close>

text \<open>
  The value \<open>searchCached\<close> stores with \<open>setCachedResults\<close> for a query: the entries
  whose lower-cased name or formula includes the lower-cased query, the first ten of
  them, converted.
\<close>

definition cachedMatch :: "string \<Rightarrow> PopularChemical \<Rightarrow> bool" where
  "cachedMatch lowerQuery chem \<longleftrightarrow>
     str_includes (toLowerCase (p_name chem)) lowerQuery \<or>
     str_includes (toLowerCase (p_formula chem)) lowerQuery"

definition searchCached :: "string \<Rightarrow> Chemical list" where
  "searchCached query =
     (let lowerQuery = toLowerCase query
      in map convertPopularToChemical
           (take 10 (filter (cachedMatch lowerQuery) popularChemicals)))"

section \<open>The PubChem service\<close>

text \<open>
  What a \<open>fetch\<close> followed by \<open>json()\<close> gives: the transport or the parser throws, the
  status is not a success, or the body is read.
\<close>

datatype 'a response = TransportFailure | NonSuccess | Success 'a

text \<open>An element of \<open>PC_Compounds\<close>: the identifier and the list of labelled properties.\<close>

record CompoundProp =
  label :: string
  sval :: "string option"
  fval :: "rat option"

record RawCompound =
  raw_cid :: nat
  props :: "CompoundProp list"

text \<open>
  The three remote lookups, and the by-name compound lookup of \<open>searchChemicalByName\<close>.
  \<open>autocomplete\<close> gives \<open>dictionary_terms?.compound || []\<close>, \<open>nameToCid\<close> gives
  \<open>IdentifierList?.CID?.[0]\<close>, the two others give \<open>PC_Compounds || []\<close>.
\<close>

record PubChem =
  autocomplete :: "string \<Rightarrow> nat \<Rightarrow> string list response"
  nameToCid :: "string \<Rightarrow> nat option response"
  compoundsByCids :: "nat list \<Rightarrow> RawCompound list response"
  compoundsByName :: "string \<Rightarrow> RawCompound list response"

datatype call =
    GetAutocomplete string nat
  | GetCid string
  | GetCompoundsByCids "nat list"
  | GetCompoundsByName string

datatype error = FetchError | ApiError

definition propSval :: "RawCompound \<Rightarrow> string \<Rightarrow> string option" where
  "propSval compound l =
     (case find (\<lambda>p. label p = l) (props compound) of
        None \<Rightarrow> None
      | Some p \<Rightarrow> sval p)"

definition propFval :: "RawCompound \<Rightarrow> string \<Rightarrow> rat option" where
  "propFval compound l =
     (case find (\<lambda>p. label p = l) (props compound) of
        None \<Rightarrow> None
      | Some p \<Rightarrow> fval p)"

text \<open>The record both mapping steps build from a compound, given its display name.\<close>

definition toPubChemCompound :: "string \<Rightarrow> RawCompound \<Rightarrow> PubChemCompound" where
  "toPubChemCompound nm compound =
     \<lparr>cid = raw_cid compound,
      name = nm,
      molecularFormula =
        (case propSval compound ''Molecular Formula'' of Some f \<Rightarrow> f | None \<Rightarrow> []),
      molecularWeight =
        (case propFval compound ''Molecular Weight'' of Some w \<Rightarrow> w | None \<Rightarrow> 0),
      iupacName = propSval compound ''IUPAC Name'',
      canonicalSmiles = propSval compound ''SMILES''\<rparr>"

subsection \<open>searchChemicalByName\<close>

definition searchChemicalByName_try ::
  "PubChem \<Rightarrow> string \<Rightarrow> error + PubChemCompound list" where
  "searchChemicalByName_try env nm =
     (case compoundsByName env nm of
        TransportFailure \<Rightarrow> Inl FetchError
      | NonSuccess \<Rightarrow> Inl ApiError
      | Success compounds \<Rightarrow> Inr (map (toPubChemCompound nm) compounds))"

definition searchChemicalByName ::
  "PubChem \<Rightarrow> string \<Rightarrow> error + PubChemCompound list" where
  "searchChemicalByName env nm =
     (case searchChemicalByName_try env nm of
        Inl e \<Rightarrow> Inr []
      | Inr compounds \<Rightarrow> Inr compounds)"

subsection \<open>searchChemicalsAutocomplete\<close>

definition commonChemicals :: "(char \<times> string list) list" where
  "commonChemicals = [
    (CHR ''a'', [''acetone'', ''ammonia'', ''aspirin'', ''acetic acid'', ''acetaminophen'',
                 ''argon'', ''arsenic'']),
    (CHR ''b'', [''benzene'', ''butanol'', ''bromine'', ''barium'', ''boron'']),
    (CHR ''c'', [''caffeine'', ''chlorine'', ''carbon'', ''calcium'', ''copper'', ''chromium'']),
    (CHR ''d'', [''dextrose'', ''dimethyl'', ''dopamine'']),
    (CHR ''e'', [''ethanol'', ''ethane'', ''ether'', ''epinephrine'']),
    (CHR ''f'', [''formaldehyde'', ''fluorine'', ''fructose'']),
    (CHR ''g'', [''glucose'', ''glycerol'', ''gold'']),
    (CHR ''h'', [''hydrogen'', ''helium'', ''hydrochloric acid'']),
    (CHR ''i'', [''iodine'', ''iron'', ''isopropanol'', ''ibuprofen'']),
    (CHR ''m'', [''methanol'', ''methane'', ''mercury'', ''magnesium'']),
    (CHR ''n'', [''nitrogen'', ''neon'', ''nickel'', ''nitric acid'']),
    (CHR ''o'', [''oxygen'', ''ozone'']),
    (CHR ''p'', [''propanol'', ''propane'', ''phosphorus'', ''potassium'']),
    (CHR ''s'', [''sulfuric acid'', ''sodium'', ''silver'', ''sucrose'']),
    (CHR ''t'', [''toluene'', ''titanium'']),
    (CHR ''w'', [''water''])
  ]"

text \<open>
  \<open>filtered\<close> of the short-query branch: the table's list for the first character of the
  lower-cased query (no list when the query is empty or the character has no entry),
  filtered by the whole lower-cased query when the query has two characters.
\<close>

definition shortQueryFiltered :: "string \<Rightarrow> string list" where
  "shortQueryFiltered query =
     (let suggestions =
            (case toLowerCase query of
               [] \<Rightarrow> []
             | firstChar # _ \<Rightarrow>
                 (case map_of commonChemicals firstChar of Some l \<Rightarrow> l | None \<Rightarrow> []))
      in if length query = 2
         then filter (\<lambda>s. startsWith (toLowerCase s) (toLowerCase query)) suggestions
         else suggestions)"

text \<open>One element of \<open>searchPromises\<close>: the first compound found under the name, or null.\<close>

definition firstByName :: "PubChem \<Rightarrow> string \<Rightarrow> PubChemCompound option" where
  "firstByName env nm =
     (case searchChemicalByName env nm of
        Inl e \<Rightarrow> None
      | Inr [] \<Rightarrow> None
      | Inr (r # _) \<Rightarrow> Some r)"

definition shortQueryPath ::
  "PubChem \<Rightarrow> string list \<Rightarrow> call list \<times> (error + PubChemCompound list)" where
  "shortQueryPath env filtered =
     (let names = take 10 filtered;
          results = map (firstByName env) names
      in (map GetCompoundsByName names,
          Inr (map the (filter (\<lambda>r. r \<noteq> None) results))))"

text \<open>One element of \<open>cidPromises\<close>: the name with the identifier found, or null.\<close>

definition cidLookup :: "PubChem \<Rightarrow> string \<Rightarrow> (string \<times> nat option) option" where
  "cidLookup env nm =
     (case nameToCid env nm of
        TransportFailure \<Rightarrow> None
      | NonSuccess \<Rightarrow> None
      | Success c \<Rightarrow> Some (nm, c))"

text \<open>
  \<open>validCids\<close>: of the lookups of the names, those that are not null and whose identifier
  is truthy (neither undefined nor 0).
\<close>

fun validCid :: "(string \<times> nat option) option \<Rightarrow> (string \<times> nat) list" where
  "validCid None = []"
| "validCid (Some (nm, None)) = []"
| "validCid (Some (nm, Some c)) = (if c = 0 then [] else [(nm, c)])"

definition resolveCids :: "PubChem \<Rightarrow> string list \<Rightarrow> (string \<times> nat) list" where
  "resolveCids env names = concat (map validCid (map (cidLookup env) names))"

definition matchedName :: "(string \<times> nat) list \<Rightarrow> nat \<Rightarrow> string" where
  "matchedName validCids c =
     (case find (\<lambda>v. snd v = c) validCids of
        None \<Rightarrow> ''Compound '' @ toString c
      | Some v \<Rightarrow> if fst v = [] then ''Compound '' @ toString c else fst v)"

definition autocompletePath ::
  "PubChem \<Rightarrow> string \<Rightarrow> nat \<Rightarrow> call list \<times> (error + PubChemCompound list)" where
  "autocompletePath env query limit =
     (case autocomplete env query limit of
        TransportFailure \<Rightarrow> ([GetAutocomplete query limit], Inl FetchError)
      | NonSuccess \<Rightarrow> ([GetAutocomplete query limit], Inr [])
      | Success suggestions \<Rightarrow>
          if suggestions = [] then ([GetAutocomplete query limit], Inr [])
          else
            let names = take 20 suggestions;
                validCids = resolveCids env names;
                calls = GetAutocomplete query limit # map GetCid names
            in if validCids = [] then (calls, Inr [])
               else
                 let cids = map snd validCids
                 in (case compoundsByCids env cids of
                       TransportFailure \<Rightarrow> (calls @ [GetCompoundsByCids cids], Inl FetchError)
                     | NonSuccess \<Rightarrow> (calls @ [GetCompoundsByCids cids], Inr [])
                     | Success compounds \<Rightarrow>
                         (calls @ [GetCompoundsByCids cids],
                          Inr (map (\<lambda>compound.
                                 toPubChemCompound (matchedName validCids (raw_cid compound))
                                   compound)
                               compounds))))"

definition searchChemicalsAutocomplete_try ::
  "PubChem \<Rightarrow> string \<Rightarrow> nat \<Rightarrow> call list \<times> (error + PubChemCompound list)" where
  "searchChemicalsAutocomplete_try env query limit =
     (if length query \<le> 2 \<and> shortQueryFiltered query \<noteq> []
      then shortQueryPath env (shortQueryFiltered query)
      else autocompletePath env query limit)"

text \<open>
  The function with its outer \<open>catch\<close>: the requests it has sent, and what its promise
  settles to (\<open>Inl\<close> would be a rejection).
\<close>

definition searchChemicalsAutocomplete ::
  "PubChem \<Rightarrow> string \<Rightarrow> nat \<Rightarrow> call list \<times> (error + PubChemCompound list)" where
  "searchChemicalsAutocomplete env query limit =
     (case searchChemicalsAutocomplete_try env query limit of
        (calls, Inl e) \<Rightarrow> (calls, Inr [])
      | (calls, Inr compounds) \<Rightarrow> (calls, Inr compounds))"

section \<open>The hybrid search hook\<close>

text \<open>
  \<open>useHybridSearch\<close> keeps four state cells. Around them the model keeps what React and
  the JavaScript runtime keep for the hook: the query of the effect that ran last (the
  dependency array \<open>[query]\<close>), the clock, the pending timeout, and the remote calls
  that have been issued and have not settled.

  A timeout or a call in flight holds the closure of the render that created its effect:
  the query of that render and the \<open>cachedResults\<close> that render read from the state.
\<close>

datatype source = Cache | Api | Both

record closure =
  cl_query :: string
  cl_cachedResults :: "Chemical list"

record hook =
  cachedResults :: "Chemical list"
  apiResults :: "Chemical list"
  loading :: bool
  searchSource :: source
  deps :: "string option"
  clock :: nat
  apiTimer :: "(nat \<times> closure) option"
  inFlight :: "closure list"

definition initial :: hook where
  "initial =
     \<lparr>cachedResults = [], apiResults = [], loading = False, searchSource = Cache,
      deps = None, clock = 0, apiTimer = None, inFlight = []\<rparr>"

text \<open>What the hook returns to its caller.\<close>

definition results :: "hook \<Rightarrow> Chemical list" where
  "results s = cachedResults s @ apiResults s"

definition hasCachedResults :: "hook \<Rightarrow> bool" where
  "hasCachedResults s \<longleftrightarrow> length (cachedResults s) > 0"

definition hasApiResults :: "hook \<Rightarrow> bool" where
  "hasApiResults s \<longleftrightarrow> length (apiResults s) > 0"

text \<open>
  The body of the effect for a render with \<open>query\<close> in state \<open>s\<close>: the early return of
  the empty query, else \<open>searchCached()\<close> and the timeout of 200 for \<open>searchAPI\<close>.
\<close>

definition effect :: "string \<Rightarrow> hook \<Rightarrow> hook" where
  "effect query s =
     (if query = [] then s\<lparr>cachedResults := [], apiResults := [], searchSource := Cache\<rparr>
      else
        let cached = searchCached query;
            s1 = s\<lparr>cachedResults := cached\<rparr>;
            s2 = (if length cached > 0 then s1\<lparr>searchSource := Cache\<rparr> else s1)
        in s2\<lparr>apiTimer :=
                Some (clock s + 200,
                      \<lparr>cl_query = query, cl_cachedResults = cachedResults s\<rparr>)\<rparr>)"

text \<open>
  The cleanup the previous effect returned: \<open>clearTimeout(apiTimer)\<close>. The effect of an
  empty query returns none.
\<close>

definition cleanup :: "hook \<Rightarrow> hook" where
  "cleanup s =
     (case deps s of
        None \<Rightarrow> s
      | Some previous \<Rightarrow> if previous = [] then s else s\<lparr>apiTimer := None\<rparr>)"

text \<open>
  A render with \<open>query\<close>: React runs the cleanup and the effect only when the dependency
  differs from the one of the last effect.
\<close>

definition render :: "string \<Rightarrow> hook \<Rightarrow> hook" where
  "render query s =
     (if deps s = Some query then s
      else effect query ((cleanup s)\<lparr>deps := Some query\<rparr>))"

text \<open>
  \<open>searchAPI\<close> up to its \<open>await\<close>: \<open>setLoading(true)\<close> and the call is in flight.
\<close>

definition searchAPI_start :: "closure \<Rightarrow> hook \<Rightarrow> hook" where
  "searchAPI_start c s = s\<lparr>loading := True, inFlight := inFlight s @ [c]\<rparr>"

text \<open>
  \<open>searchAPI\<close> from its \<open>await\<close> on, given what the awaited promise settled to: the
  \<open>try\<close> block, the \<open>catch\<close> that only logs, the \<open>finally\<close>. The second component is
  what the promise of \<open>searchAPI\<close> itself settles to.
\<close>

definition searchAPI_resume ::
  "closure \<Rightarrow> error + PubChemCompound list \<Rightarrow> hook \<Rightarrow> hook \<times> (error + unit)" where
  "searchAPI_resume c awaited s =
     (let s' =
        (case awaited of
           Inl e \<Rightarrow> s
         | Inr compounds \<Rightarrow>
             let apiChemicals = map convertPubChemToChemical compounds;
                 cachedIds = set (map chem_id (cl_cachedResults c));
                 uniqueApiResults = filter (\<lambda>x. chem_id x \<notin> cachedIds) apiChemicals
             in s\<lparr>apiResults := uniqueApiResults,
                  searchSource := (if length (cl_cachedResults c) > 0 then Both else Api)\<rparr>)
      in (s'\<lparr>loading := False\<rparr>, Inr ()))"

text \<open>Time passes by \<open>d\<close>; a timeout that is due runs its callback.\<close>

definition elapse :: "nat \<Rightarrow> hook \<Rightarrow> hook" where
  "elapse d s =
     (let s' = s\<lparr>clock := clock s + d\<rparr>
      in case apiTimer s of
           None \<Rightarrow> s'
         | Some (due, c) \<Rightarrow>
             if due \<le> clock s' then searchAPI_start c (s'\<lparr>apiTimer := None\<rparr>) else s')"

text \<open>
  The \<open>i\<close>-th call in flight settles: \<open>searchChemicalsAutocomplete(query, 50)\<close> with the
  query of its closure, against the remote service as it answers.
\<close>

definition settle :: "nat \<Rightarrow> PubChem \<Rightarrow> hook \<Rightarrow> hook" where
  "settle i env s =
     (if i < length (inFlight s)
      then
        let c = inFlight s ! i;
            awaited = snd (searchChemicalsAutocomplete env (cl_query c) 50)
        in fst (searchAPI_resume c awaited
                  (s\<lparr>inFlight := take i (inFlight s) @ drop (Suc i) (inFlight s)\<rparr>))
      else s)"

datatype event = Render string | Elapse nat | Settle nat PubChem

fun step :: "event \<Rightarrow> hook \<Rightarrow> hook" where
  "step (Render query) s = render query s"
| "step (Elapse d) s = elapse d s"
| "step (Settle i env) s = settle i env s"

fun run :: "event list \<Rightarrow> hook \<Rightarrow> hook" where
  "run [] s = s"
| "run (e # es) s = run es (step e s)"

inductive reachable :: "hook \<Rightarrow> bool" where
  reachable_initial: "reachable initial"
| reachable_step: "reachable s \<Longrightarrow> reachable (step e s)"

section \<open>Sample remote services\<close>

text \<open>
  Remote services to run the functions on. \<open>samplePubChem\<close> knows four names, two of them
  for the same compound; it suggests the names that start with the lower-cased query and
  answers a batched request with one compound for each identifier asked for.
\<close>

definition rawCompound :: "nat \<Rightarrow> string \<Rightarrow> rat \<Rightarrow> RawCompound" where
  "rawCompound c f w =
     \<lparr>raw_cid = c,
      props = [\<lparr>label = ''Molecular Formula'', sval = Some f, fval = None\<rparr>,
               \<lparr>label = ''Molecular Weight'', sval = None, fval = Some w\<rparr>]\<rparr>"

definition sampleCompounds :: "(string \<times> RawCompound) list" where
  "sampleCompounds = [
     (''ethanol'', rawCompound 702 ''C2H6O'' (4607 / 100)),
     (''ethyl alcohol'', rawCompound 702 ''C2H6O'' (4607 / 100)),
     (''water'', rawCompound 962 ''H2O'' (1802 / 100)),
     (''aspirin'', rawCompound 2244 ''C9H8O4'' (18016 / 100))
   ]"

definition samplePubChem :: PubChem where
  "samplePubChem =
     \<lparr>autocomplete = (\<lambda>query limit.
        Success (take limit
          (filter (\<lambda>nm. startsWith nm (toLowerCase query)) (map fst sampleCompounds)))),
      nameToCid = (\<lambda>nm.
        case map_of sampleCompounds nm of
          None \<Rightarrow> NonSuccess
        | Some compound \<Rightarrow> Success (Some (raw_cid compound))),
      compoundsByCids = (\<lambda>cids.
        Success (concat (map (\<lambda>c.
          take 1 (filter (\<lambda>compound. raw_cid compound = c) (map snd sampleCompounds))) cids))),
      compoundsByName = (\<lambda>nm.
        case map_of sampleCompounds nm of
          None \<Rightarrow> NonSuccess
        | Some compound \<Rightarrow> Success [compound])\<rparr>"

text \<open>A service that answers the batched request in an order of its own.\<close>

definition shuffledPubChem :: PubChem where
  "shuffledPubChem =
     \<lparr>autocomplete = (\<lambda>query limit. Success [''five'', ''two'', ''nine'']),
      nameToCid = (\<lambda>nm.
        Success (map_of [(''five'', 5), (''two'', 2), (''nine'', 9)] nm)),
      compoundsByCids = (\<lambda>cids.
        Success [rawCompound 9 ''I'' 9, rawCompound 5 ''V'' 5, rawCompound 2 ''II'' 2,
                 rawCompound 7 ''VII'' 7]),
      compoundsByName = (\<lambda>nm. NonSuccess)\<rparr>"

text \<open>A service whose only suggestion is the empty name, which it resolves.\<close>

definition namelessPubChem :: PubChem where
  "namelessPubChem =
     \<lparr>autocomplete = (\<lambda>query limit. Success [[]]),
      nameToCid = (\<lambda>nm. Success (Some 5)),
      compoundsByCids = (\<lambda>cids. Success [rawCompound 5 ''V'' 5]),
      compoundsByName = (\<lambda>nm. NonSuccess)\<rparr>"

text \<open>A service that is down, and one that knows some names and fails on others.\<close>

definition downPubChem :: PubChem where
  "downPubChem =
     \<lparr>autocomplete = (\<lambda>query limit. TransportFailure),
      nameToCid = (\<lambda>nm. TransportFailure),
      compoundsByCids = (\<lambda>cids. TransportFailure),
      compoundsByName = (\<lambda>nm. TransportFailure)\<rparr>"

definition patchyPubChem :: PubChem where
  "patchyPubChem =
     \<lparr>autocomplete = (\<lambda>query limit. NonSuccess),
      nameToCid = (\<lambda>nm. NonSuccess),
      compoundsByCids = (\<lambda>cids. NonSuccess),
      compoundsByName = (\<lambda>nm.
        if nm = ''acetone'' then Success [rawCompound 180 ''C3H6O'' (5808 / 100)]
        else if nm = ''ammonia'' then TransportFailure
        else if nm = ''aspirin''
          then Success [rawCompound 2244 ''C9H8O4'' (18016 / 100),
                        rawCompound 1 ''X'' 1]
        else if nm = ''argon'' then Success []
        else NonSuccess)\<rparr>"

text \<open>
  A run of the hook: mounted with the empty query, then \<open>water\<close> typed and resolved, then
  \<open>qqq\<close> typed and its call issued.
\<close>

definition afterWaterThenQqq :: hook where
  "afterWaterThenQqq =
     run [Render [], Render ''water'', Elapse 200, Settle 0 samplePubChem,
          Render ''qqq'', Elapse 200] initial"

text \<open>
  A run in which the query is cleared while the call for \<open>water\<close> is in flight.
\<close>

definition clearedWhileInFlight :: hook where
  "clearedWhileInFlight =
     run [Render [], Render ''water'', Elapse 200, Render []] initial"

text \<open>A run that ends at rest: \<open>water\<close> typed and resolved.\<close>

definition afterWater :: hook where
  "afterWater = run [Render [], Render ''water'', Elapse 200, Settle 0 samplePubChem] initial"

text \<open>
  A run in which \<open>ethanol\<close> is entered in one change of the query, and resolved.
\<close>

definition afterEthanol :: hook where
  "afterEthanol =
     run [Render [], Render ''ethanol'', Elapse 200, Settle 0 samplePubChem] initial"

text \<open>
  The call for \<open>water\<close> in flight, and two runs in which \<open>aspirin\<close> then replaces
  \<open>water\<close>: in the first the call for \<open>water\<close> settles first, in the second it settles
  last.
\<close>

definition waterInFlight :: hook where
  "waterInFlight = run [Render [], Render ''water'', Elapse 200] initial"

definition waterSettlesFirst :: hook where
  "waterSettlesFirst =
     run [Render [], Render ''water'', Elapse 200, Render ''aspirin'', Elapse 200,
          Settle 0 samplePubChem, Settle 0 samplePubChem] initial"

definition waterSettlesLast :: hook where
  "waterSettlesLast =
     run [Render [], Render ''water'', Elapse 200, Render ''aspirin'', Elapse 200,
          Settle 1 samplePubChem, Settle 0 samplePubChem] initial"

section \<open>Evaluation of the string functions and of the cached search\<close>

lemma toString_digit: "n < 10 \<Longrightarrow> toString n = [digitChar n]"
  by (simp add: toString.simps)

lemma toString_more:
  "10 \<le> n \<Longrightarrow> toString n = toString (n div 10) @ [digitChar (n mod 10)]"
  by (subst toString.simps) simp

lemma floor_numeral_div:
  "\<lfloor>numeral a / numeral b :: rat\<rfloor> = numeral a div numeral b"
  using floor_divide_of_int_eq [of "numeral a" "numeral b", where ?'a = rat] by simp

lemmas string_eval =
  toLowerCase_def toLowerChar_def Let_def char_of_def bit_Suc_0_iff startsWith_def
  digitChar_def toString_digit toString_more toFixed2_def floor_numeral_div

lemmas cached_eval = cachedMatch_def popularChemicals_def convertPopularToChemical_def

lemma searchCached_ethanol:
  "searchCached ''ethanol'' =
     [\<lparr>chem_id = ''702'', chem_name = ''Ethanol'', chem_formula = ''C2H6O'',
        casNumber = [], category = ''Solvent'', hazardLevel = ''Moderate'',
        description = ''Common solvent''\<rparr>,
      \<lparr>chem_id = ''887'', chem_name = ''Methanol'', chem_formula = ''CH4O'',
        casNumber = [], category = ''Solvent'', hazardLevel = ''Moderate'',
        description = ''Common solvent''\<rparr>]"
  unfolding searchCached_def Let_def by (simp add: cached_eval string_eval)

lemma searchCached_water:
  "searchCached ''water'' =
     [\<lparr>chem_id = ''962'', chem_name = ''Water'', chem_formula = ''H2O'',
        casNumber = [], category = ''Element'', hazardLevel = ''Moderate'',
        description = ''Common element''\<rparr>]"
  unfolding searchCached_def Let_def by (simp add: cached_eval string_eval)

lemma searchCached_aspirin:
  "searchCached ''aspirin'' =
     [\<lparr>chem_id = ''2244'', chem_name = ''Aspirin'', chem_formula = ''C9H8O4'',
        casNumber = [], category = ''Pharmaceutical'', hazardLevel = ''Moderate'',
        description = ''Common pharmaceutical''\<rparr>]"
  unfolding searchCached_def Let_def by (simp add: cached_eval string_eval)

lemma searchCached_zzz: "searchCached ''zzz'' = []"
  unfolding searchCached_def Let_def by (simp add: cached_eval string_eval)

lemma searchCached_qqq: "searchCached ''qqq'' = []"
  unfolding searchCached_def Let_def by (simp add: cached_eval string_eval)

lemmas service_eval =
  searchChemicalsAutocomplete_def searchChemicalsAutocomplete_try_def shortQueryFiltered_def
  shortQueryPath_def firstByName_def searchChemicalByName_def searchChemicalByName_try_def
  autocompletePath_def resolveCids_def cidLookup_def matchedName_def toPubChemCompound_def
  propSval_def propFval_def commonChemicals_def rawCompound_def

lemmas hook_eval =
  render_def effect_def cleanup_def elapse_def settle_def searchAPI_start_def
  searchAPI_resume_def initial_def results_def convertPubChemToChemical_def

lemma sample_water:
  "searchChemicalsAutocomplete samplePubChem ''water'' 50 =
     ([GetAutocomplete ''water'' 50, GetCid ''water'', GetCompoundsByCids [962]],
      Inr [\<lparr>cid = 962, name = ''water'', molecularFormula = ''H2O'',
             molecularWeight = 1802 / 100, iupacName = None, canonicalSmiles = None\<rparr>])"
  by (simp add: service_eval samplePubChem_def sampleCompounds_def string_eval)

lemma sample_aspirin:
  "searchChemicalsAutocomplete samplePubChem ''aspirin'' 50 =
     ([GetAutocomplete ''aspirin'' 50, GetCid ''aspirin'', GetCompoundsByCids [2244]],
      Inr [\<lparr>cid = 2244, name = ''aspirin'', molecularFormula = ''C9H8O4'',
             molecularWeight = 18016 / 100, iupacName = None, canonicalSmiles = None\<rparr>])"
  by (simp add: service_eval samplePubChem_def sampleCompounds_def string_eval)

lemma sample_ethanol:
  "searchChemicalsAutocomplete samplePubChem ''ethanol'' 50 =
     ([GetAutocomplete ''ethanol'' 50, GetCid ''ethanol'', GetCompoundsByCids [702]],
      Inr [\<lparr>cid = 702, name = ''ethanol'', molecularFormula = ''C2H6O'',
             molecularWeight = 4607 / 100, iupacName = None, canonicalSmiles = None\<rparr>])"
  by (simp add: service_eval samplePubChem_def sampleCompounds_def string_eval)

lemma sample_qqq:
  "searchChemicalsAutocomplete samplePubChem ''qqq'' 50 = ([GetAutocomplete ''qqq'' 50], Inr [])"
  by (simp add: service_eval samplePubChem_def sampleCompounds_def string_eval)

section \<open>The state cells under each event\<close>

lemma render_same: "deps s = Some query \<Longrightarrow> render query s = s"
  by (simp add: render_def)

lemma cleanup_cells:
  "cachedResults (cleanup s) = cachedResults s"
  "apiResults (cleanup s) = apiResults s"
  "loading (cleanup s) = loading s"
  "searchSource (cleanup s) = searchSource s"
  "inFlight (cleanup s) = inFlight s"
  "clock (cleanup s) = clock s"
  "deps (cleanup s) = deps s"
  by (simp_all add: cleanup_def split: option.splits)

lemma render_empty:
  "deps s \<noteq> Some [] \<Longrightarrow>
   render [] s = (cleanup s)\<lparr>deps := Some [], cachedResults := [], apiResults := [],
                              searchSource := Cache\<rparr>"
  by (simp add: render_def effect_def)

lemma render_query:
  "query \<noteq> [] \<Longrightarrow> deps s \<noteq> Some query \<Longrightarrow>
   render query s =
     (cleanup s)
       \<lparr>deps := Some query,
        cachedResults := searchCached query,
        searchSource := (if searchCached query = [] then searchSource s else Cache),
        apiTimer := Some (clock s + 200,
                          \<lparr>cl_query = query, cl_cachedResults = cachedResults s\<rparr>)\<rparr>"
  by (simp add: render_def effect_def Let_def cleanup_cells)

lemma render_frame:
  "loading (render query s) = loading s"
  "inFlight (render query s) = inFlight s"
  "clock (render query s) = clock s"
  by (simp_all add: render_def effect_def Let_def cleanup_cells)

lemma elapse_frame:
  "cachedResults (elapse d s) = cachedResults s"
  "apiResults (elapse d s) = apiResults s"
  "searchSource (elapse d s) = searchSource s"
  "deps (elapse d s) = deps s"
  "clock (elapse d s) = clock s + d"
  by (simp_all add: elapse_def searchAPI_start_def Let_def split: option.splits)

lemma elapse_idle:
  "apiTimer s = None \<Longrightarrow> elapse d s = s\<lparr>clock := clock s + d\<rparr>"
  by (simp add: elapse_def)

lemma elapse_early:
  "apiTimer s = Some (due, c) \<Longrightarrow> clock s + d < due \<Longrightarrow>
   elapse d s = s\<lparr>clock := clock s + d\<rparr>"
  by (simp add: elapse_def)

lemma elapse_due:
  "apiTimer s = Some (due, c) \<Longrightarrow> due \<le> clock s + d \<Longrightarrow>
   elapse d s =
     s\<lparr>clock := clock s + d, apiTimer := None, loading := True,
       inFlight := inFlight s @ [c]\<rparr>"
  by (simp add: elapse_def searchAPI_start_def)

lemma settle_none: "length (inFlight s) \<le> i \<Longrightarrow> settle i env s = s"
  by (simp add: settle_def)

lemma settle_frame:
  "cachedResults (settle i env s) = cachedResults s"
  "deps (settle i env s) = deps s"
  "clock (settle i env s) = clock s"
  "apiTimer (settle i env s) = apiTimer s"
  by (simp_all add: settle_def searchAPI_resume_def Let_def split: sum.splits)

lemma afterWaterThenQqq_eval:
  "afterWaterThenQqq =
     \<lparr>cachedResults = [],
      apiResults =
        [\<lparr>chem_id = ''962'', chem_name = ''water'', chem_formula = ''H2O'',
           casNumber = [], category = ''Organic'', hazardLevel = ''Moderate'',
           description = ''MW: 18.02 g/mol''\<rparr>],
      loading = True, searchSource = Api, deps = Some ''qqq'', clock = 400,
      apiTimer = None,
      inFlight =
        [\<lparr>cl_query = ''qqq'',
           cl_cachedResults =
             [\<lparr>chem_id = ''962'', chem_name = ''Water'', chem_formula = ''H2O'',
                casNumber = [], category = ''Element'', hazardLevel = ''Moderate'',
                description = ''Common element''\<rparr>]\<rparr>]\<rparr>"
  by (simp add: afterWaterThenQqq_def hook_eval sample_water searchCached_water
      searchCached_qqq string_eval)

lemma afterWater_eval:
  "afterWater =
     \<lparr>cachedResults =
        [\<lparr>chem_id = ''962'', chem_name = ''Water'', chem_formula = ''H2O'',
           casNumber = [], category = ''Element'', hazardLevel = ''Moderate'',
           description = ''Common element''\<rparr>],
      apiResults =
        [\<lparr>chem_id = ''962'', chem_name = ''water'', chem_formula = ''H2O'',
           casNumber = [], category = ''Organic'', hazardLevel = ''Moderate'',
           description = ''MW: 18.02 g/mol''\<rparr>],
      loading = False, searchSource = Api, deps = Some ''water'', clock = 200,
      apiTimer = None, inFlight = []\<rparr>"
  by (simp add: afterWater_def hook_eval sample_water searchCached_water string_eval)

lemma clearedWhileInFlight_eval:
  "clearedWhileInFlight =
     \<lparr>cachedResults = [], apiResults = [], loading = True, searchSource = Cache,
      deps = Some [], clock = 200, apiTimer = None,
      inFlight = [\<lparr>cl_query = ''water'', cl_cachedResults = []\<rparr>]\<rparr>"
  by (simp add: clearedWhileInFlight_def hook_eval searchCached_water)

lemma afterEthanol_eval:
  "afterEthanol =
     \<lparr>cachedResults =
        [\<lparr>chem_id = ''702'', chem_name = ''Ethanol'', chem_formula = ''C2H6O'',
           casNumber = [], category = ''Solvent'', hazardLevel = ''Moderate'',
           description = ''Common solvent''\<rparr>,
         \<lparr>chem_id = ''887'', chem_name = ''Methanol'', chem_formula = ''CH4O'',
           casNumber = [], category = ''Solvent'', hazardLevel = ''Moderate'',
           description = ''Common solvent''\<rparr>],
      apiResults =
        [\<lparr>chem_id = ''702'', chem_name = ''ethanol'', chem_formula = ''C2H6O'',
           casNumber = [], category = ''Organic'', hazardLevel = ''Moderate'',
           description = ''MW: 46.07 g/mol''\<rparr>],
      loading = False, searchSource = Api, deps = Some ''ethanol'', clock = 200,
      apiTimer = None, inFlight = []\<rparr>"
  by (simp add: afterEthanol_def hook_eval sample_ethanol searchCached_ethanol string_eval)

lemma waterInFlight_eval:
  "waterInFlight =
     \<lparr>cachedResults =
        [\<lparr>chem_id = ''962'', chem_name = ''Water'', chem_formula = ''H2O'',
           casNumber = [], category = ''Element'', hazardLevel = ''Moderate'',
           description = ''Common element''\<rparr>],
      apiResults = [], loading = True, searchSource = Cache, deps = Some ''water'',
      clock = 200, apiTimer = None,
      inFlight = [\<lparr>cl_query = ''water'', cl_cachedResults = []\<rparr>]\<rparr>"
  by (simp add: waterInFlight_def hook_eval searchCached_water)

lemma waterSettlesLast_eval:
  "waterSettlesLast =
     \<lparr>cachedResults =
        [\<lparr>chem_id = ''2244'', chem_name = ''Aspirin'', chem_formula = ''C9H8O4'',
           casNumber = [], category = ''Pharmaceutical'', hazardLevel = ''Moderate'',
           description = ''Common pharmaceutical''\<rparr>],
      apiResults =
        [\<lparr>chem_id = ''962'', chem_name = ''water'', chem_formula = ''H2O'',
           casNumber = [], category = ''Organic'', hazardLevel = ''Moderate'',
           description = ''MW: 18.02 g/mol''\<rparr>],
      loading = False, searchSource = Api, deps = Some ''aspirin'', clock = 400,
      apiTimer = None, inFlight = []\<rparr>"
  by (simp add: waterSettlesLast_def hook_eval sample_water sample_aspirin searchCached_water
      searchCached_aspirin string_eval)

lemma waterSettlesFirst_eval:
  "waterSettlesFirst =
     \<lparr>cachedResults =
        [\<lparr>chem_id = ''2244'', chem_name = ''Aspirin'', chem_formula = ''C9H8O4'',
           casNumber = [], category = ''Pharmaceutical'', hazardLevel = ''Moderate'',
           description = ''Common pharmaceutical''\<rparr>],
      apiResults =
        [\<lparr>chem_id = ''2244'', chem_name = ''aspirin'', chem_formula = ''C9H8O4'',
           casNumber = [], category = ''Organic'', hazardLevel = ''Moderate'',
           description = ''MW: 180.16 g/mol''\<rparr>],
      loading = False, searchSource = Both, deps = Some ''aspirin'', clock = 400,
      apiTimer = None, inFlight = []\<rparr>"
  by (simp add: waterSettlesFirst_def hook_eval sample_water sample_aspirin searchCached_water
      searchCached_aspirin string_eval)

section \<open>Invariants of the reachable states\<close>

lemma settle_source:
  "i < length (inFlight s) \<Longrightarrow>
   searchSource (settle i env s) =
     (case snd (searchChemicalsAutocomplete env (cl_query (inFlight s ! i)) 50) of
        Inl e \<Rightarrow> searchSource s
      | Inr compounds \<Rightarrow>
          if length (cl_cachedResults (inFlight s ! i)) > 0 then Both else Api)"
  by (simp add: settle_def searchAPI_resume_def Let_def split: sum.splits)

lemma searchChemicalsAutocomplete_resolves:
  "\<exists>compounds. snd (searchChemicalsAutocomplete env query limit) = Inr compounds"
  by (simp add: searchChemicalsAutocomplete_def split: prod.splits sum.splits)

lemma settle_some:
  "i < length (inFlight s) \<Longrightarrow>
   inFlight (settle i env s) = take i (inFlight s) @ drop (Suc i) (inFlight s) \<and>
   \<not> loading (settle i env s)"
  by (simp add: settle_def searchAPI_resume_def Let_def split: sum.splits)

lemma elapse_loading:
  "inFlight (elapse d s) = [] \<Longrightarrow> loading (elapse d s) = loading s \<and> inFlight s = []"
  by (auto simp: elapse_def searchAPI_start_def Let_def split: option.splits if_splits)

lemma reachable_quiet:
  "reachable s \<Longrightarrow> inFlight s = [] \<Longrightarrow> \<not> loading s"
proof (induction rule: reachable.induct)
  case reachable_initial
  then show ?case by (simp add: initial_def)
next
  case (reachable_step s e)
  show ?case
  proof (cases e)
    case (Render query)
    with reachable_step show ?thesis by (simp add: render_frame)
  next
    case (Elapse d)
    with reachable_step elapse_loading [of d s] show ?thesis by simp
  next
    case (Settle i env)
    show ?thesis
    proof (cases "i < length (inFlight s)")
      case True
      with Settle show ?thesis by (simp add: settle_some)
    next
      case False
      with Settle reachable_step show ?thesis by (simp add: settle_none)
    qed
  qed
qed

lemma cleanup_timer:
  "apiTimer s \<noteq> None \<longrightarrow> (\<exists>p. deps s = Some p \<and> p \<noteq> []) \<Longrightarrow> apiTimer (cleanup s) = None"
  by (cases "apiTimer s") (auto simp: cleanup_def split: option.splits)

lemma elapse_timer:
  "apiTimer (elapse d s) \<noteq> None \<Longrightarrow> apiTimer s \<noteq> None"
  by (auto simp: elapse_def searchAPI_start_def Let_def split: option.splits if_splits)

lemma reachable_timer:
  "reachable s \<Longrightarrow> apiTimer s \<noteq> None \<longrightarrow> (\<exists>p. deps s = Some p \<and> p \<noteq> [])"
proof (induction rule: reachable.induct)
  case reachable_initial
  then show ?case by (simp add: initial_def)
next
  case (reachable_step s e)
  show ?case
  proof (cases e)
    case (Render query)
    show ?thesis
    proof (cases "deps s = Some query")
      case True
      with Render reachable_step show ?thesis by (simp add: render_same)
    next
      case False
      show ?thesis
      proof (cases "query = []")
        case True
        with Render False cleanup_timer [OF reachable_step.IH] show ?thesis
          by (simp add: render_empty)
      next
        case nonempty: False
        with Render False show ?thesis by (simp add: render_query)
      qed
    qed
  next
    case (Elapse d)
    with reachable_step elapse_timer [of d s] show ?thesis
      by (auto simp: elapse_frame)
  next
    case (Settle i env)
    with reachable_step show ?thesis by (simp add: settle_frame)
  qed
qed

section \<open>What a settling call writes\<close>

lemma settle_applies:
  assumes "i < length (inFlight s)"
    and "snd (searchChemicalsAutocomplete env (cl_query (inFlight s ! i)) 50) = Inr compounds"
  shows "settle i env s =
      s\<lparr>inFlight := take i (inFlight s) @ drop (Suc i) (inFlight s),
        apiResults :=
          filter (\<lambda>x. chem_id x \<notin> set (map chem_id (cl_cachedResults (inFlight s ! i))))
            (map convertPubChemToChemical compounds),
        searchSource := (if cl_cachedResults (inFlight s ! i) = [] then Api else Both),
        loading := False\<rparr>"
  using assms by (simp add: settle_def searchAPI_resume_def Let_def)

section \<open>The cached search is the substring search, and is immediate\<close>

lemma str_includes_sublist: "str_includes s t \<longleftrightarrow> sublist t s"
  by (induction s) (simp_all add: startsWith_def sublist_Cons_right)

lemma cachedMatch_sublist:
  "cachedMatch lowerQuery =
     (\<lambda>chem. sublist lowerQuery (toLowerCase (p_name chem)) \<or>
             sublist lowerQuery (toLowerCase (p_formula chem)))"
  by (rule ext) (simp add: cachedMatch_def str_includes_sublist)

lemma searchCached_sublist:
  "searchCached query =
     map convertPopularToChemical
       (take 10
         (filter (\<lambda>chem.
              sublist (toLowerCase query) (toLowerCase (p_name chem)) \<or>
              sublist (toLowerCase query) (toLowerCase (p_formula chem)))
            popularChemicals))"
  by (simp add: searchCached_def Let_def cachedMatch_sublist)

lemma elapse_render_early:
  assumes "query \<noteq> []" and "deps s \<noteq> Some query" and "d < 200"
  shows "elapse d (render query s) = (render query s)\<lparr>clock := clock s + d\<rparr>"
proof -
  have "apiTimer (render query s) =
          Some (clock s + 200, \<lparr>cl_query = query, cl_cachedResults = cachedResults s\<rparr>)"
    using assms(1,2) by (simp add: render_query)
  moreover have "clock (render query s) + d < clock s + 200"
    using assms(3) by (simp add: render_frame)
  ultimately show ?thesis
    by (simp add: elapse_early render_frame)
qed

text \<open>
  C8. For a non-empty query the cached search gives the catalog entries whose lower-cased
  name or formula has the lower-cased query as a contiguous part, in catalog order, the
  first ten of them. The render that changes the query stores them at once and sets the
  timeout 200 ahead; while less than 200 has passed they are exposed and no remote call
  has been issued; once 200 has passed the call for the query is issued.
\<close>

theorem cached_search_immediate:
  assumes "query \<noteq> []" and "deps s \<noteq> Some query" and "d < 200"
  shows "searchCached query =
           map convertPopularToChemical
             (take 10
               (filter (\<lambda>chem.
                    sublist (toLowerCase query) (toLowerCase (p_name chem)) \<or>
                    sublist (toLowerCase query) (toLowerCase (p_formula chem)))
                  popularChemicals)) \<and>
         length (searchCached query) \<le> 10 \<and>
         cachedResults (render query s) = searchCached query \<and>
         apiTimer (render query s) =
           Some (clock s + 200, \<lparr>cl_query = query, cl_cachedResults = cachedResults s\<rparr>) \<and>
         cachedResults (elapse d (render query s)) = searchCached query \<and>
         inFlight (elapse d (render query s)) = inFlight s \<and>
         inFlight (elapse 200 (render query s)) =
           inFlight s @ [\<lparr>cl_query = query, cl_cachedResults = cachedResults s\<rparr>]"
proof -
  have "length (searchCached query) \<le> 10"
    by (simp add: searchCached_def Let_def)
  moreover have "cachedResults (render query s) = searchCached query"
    using assms(1,2) by (simp add: render_query)
  moreover have "apiTimer (render query s) =
      Some (clock s + 200, \<lparr>cl_query = query, cl_cachedResults = cachedResults s\<rparr>)"
    using assms(1,2) by (simp add: render_query)
  moreover have "cachedResults (elapse d (render query s)) = searchCached query"
    using assms(1,2) by (simp add: elapse_frame render_query)
  moreover have "inFlight (elapse d (render query s)) = inFlight s"
    using assms by (simp add: elapse_render_early render_frame)
  moreover have "inFlight (elapse 200 (render query s)) =
      inFlight s @ [\<lparr>cl_query = query, cl_cachedResults = cachedResults s\<rparr>]"
    using assms(1,2) elapse_due [of "render query s" "clock s + 200" _ 200]
    by (simp add: render_query cleanup_cells)
  ultimately show ?thesis
    using searchCached_sublist by blast
qed

theorem cached_search_immediate_witness:
  "map chem_name
     (map convertPopularToChemical
       (take 10
         (filter (\<lambda>chem.
              sublist (toLowerCase ''ethanol'') (toLowerCase (p_name chem)) \<or>
              sublist (toLowerCase ''ethanol'') (toLowerCase (p_formula chem)))
            popularChemicals))) = [''Ethanol'', ''Methanol''] \<and>
   map chem_name (cachedResults (render ''ethanol'' initial)) = [''Ethanol'', ''Methanol''] \<and>
   apiTimer (render ''ethanol'' initial) =
     Some (200, \<lparr>cl_query = ''ethanol'', cl_cachedResults = []\<rparr>) \<and>
   map chem_name (cachedResults (elapse 199 (render ''ethanol'' initial))) =
     [''Ethanol'', ''Methanol''] \<and>
   inFlight (elapse 199 (render ''ethanol'' initial)) = [] \<and>
   inFlight (elapse 200 (render ''ethanol'' initial)) =
     [\<lparr>cl_query = ''ethanol'', cl_cachedResults = []\<rparr>]"
proof -
  have h: "''ethanol'' \<noteq> []" "deps initial \<noteq> Some ''ethanol''" "(199::nat) < 200"
    by (simp_all add: initial_def)
  note t = cached_search_immediate [OF h]
  have i: "cachedResults initial = []" "clock initial = 0" "inFlight initial = []"
    by (simp_all add: initial_def)
  show ?thesis
    unfolding t [THEN conjunct1, symmetric]
    using t [THEN conjunct2] by (simp add: searchCached_ethanol i)
qed

section \<open>Where \<open>searchSource\<close> is written\<close>

text \<open>
  C10. A non-empty query without a cached match leaves \<open>searchSource\<close> as it was, at the
  render and when the timeout runs; a render with a cached match writes \<open>Cache\<close>; the
  next write is that of a settling remote call, \<open>Both\<close> or \<open>Api\<close> by the cached results its
  closure holds. Until then the value exposed is the one left by the previous query.
\<close>

theorem searchSource_kept_without_match:
  assumes "query \<noteq> []" and "searchCached query = []"
  shows "searchSource (render query s) = searchSource s \<and>
         searchSource (elapse d (render query s)) = searchSource s \<and>
         (\<forall>query'. query' \<noteq> [] \<and> deps s \<noteq> Some query' \<and> searchCached query' \<noteq> [] \<longrightarrow>
            searchSource (render query' s) = Cache) \<and>
         (\<forall>i env. i < length (inFlight s) \<longrightarrow>
            searchSource (settle i env s) =
              (if length (cl_cachedResults (inFlight s ! i)) > 0 then Both else Api))"
proof -
  have a: "searchSource (render query s) = searchSource s"
  proof (cases "deps s = Some query")
    case True
    then show ?thesis by (simp add: render_same)
  next
    case False
    with assms show ?thesis by (simp add: render_query cleanup_cells)
  qed
  have b: "searchSource (elapse d (render query s)) = searchSource s"
    using a by (simp add: elapse_frame)
  have c: "searchSource (render query' s) = Cache"
    if "query' \<noteq> []" "deps s \<noteq> Some query'" "searchCached query' \<noteq> []" for query'
    using that by (simp add: render_query)
  have d: "searchSource (settle i env s) =
             (if length (cl_cachedResults (inFlight s ! i)) > 0 then Both else Api)"
    if "i < length (inFlight s)" for i env
  proof -
    obtain compounds where
      "snd (searchChemicalsAutocomplete env (cl_query (inFlight s ! i)) 50) = Inr compounds"
      using searchChemicalsAutocomplete_resolves by blast
    with that show ?thesis by (simp add: settle_source)
  qed
  from a b c d show ?thesis by blast
qed

theorem searchSource_kept_without_match_witness:
  "searchSource afterWaterThenQqq = Api \<and>
   searchSource (render ''zzz'' afterWaterThenQqq) = Api \<and>
   searchSource (elapse 200 (render ''zzz'' afterWaterThenQqq)) = Api \<and>
   searchSource (render ''aspirin'' afterWaterThenQqq) = Cache \<and>
   searchSource (settle 0 samplePubChem afterWaterThenQqq) = Both"
proof -
  have h: "''zzz'' \<noteq> []"
    by simp
  note t = searchSource_kept_without_match [OF h searchCached_zzz, of afterWaterThenQqq 200]
  have s: "searchSource afterWaterThenQqq = Api"
    by (simp add: afterWaterThenQqq_eval)
  from t have r: "searchSource (render ''zzz'' afterWaterThenQqq) = Api"
    and e: "searchSource (elapse 200 (render ''zzz'' afterWaterThenQqq)) = Api"
    by (simp_all add: s)
  from t have "''aspirin'' \<noteq> [] \<and> deps afterWaterThenQqq \<noteq> Some ''aspirin'' \<and>
      searchCached ''aspirin'' \<noteq> [] \<longrightarrow>
      searchSource (render ''aspirin'' afterWaterThenQqq) = Cache"
    by blast
  then have a: "searchSource (render ''aspirin'' afterWaterThenQqq) = Cache"
    by (simp add: searchCached_aspirin afterWaterThenQqq_eval)
  from t have "0 < length (inFlight afterWaterThenQqq) \<longrightarrow>
      searchSource (settle 0 samplePubChem afterWaterThenQqq) =
        (if length (cl_cachedResults (inFlight afterWaterThenQqq ! 0)) > 0 then Both else Api)"
    by blast
  then have b: "searchSource (settle 0 samplePubChem afterWaterThenQqq) = Both"
    by (simp add: afterWaterThenQqq_eval)
  from s r e a b show ?thesis
    by simp
qed

section \<open>The empty query\<close>

text \<open>
  C9, as the code has it. When the query changes to the empty string, the render clears
  \<open>cachedResults\<close> and \<open>apiResults\<close>, so \<open>results\<close> is empty, writes \<open>Cache\<close>, cancels the
  pending timeout and sets none, so that no remote call is issued for it however much time
  passes. \<open>loading\<close> is not written: it is false when no earlier call is in flight, and is
  otherwise left to the call that is.
\<close>

theorem empty_query_clears:
  assumes "reachable s" and "deps s \<noteq> Some []"
  shows "cachedResults (render [] s) = [] \<and>
         apiResults (render [] s) = [] \<and>
         results (render [] s) = [] \<and>
         searchSource (render [] s) = Cache \<and>
         apiTimer (render [] s) = None \<and>
         inFlight (elapse d (render [] s)) = inFlight s \<and>
         loading (render [] s) = loading s \<and>
         (inFlight s = [] \<longrightarrow> \<not> loading (render [] s))"
proof -
  have t: "apiTimer (cleanup s) = None"
    using assms(1) by (rule cleanup_timer [OF reachable_timer])
  have r: "render [] s =
      (cleanup s)\<lparr>deps := Some [], cachedResults := [], apiResults := [],
                 searchSource := Cache\<rparr>"
    using assms(2) by (rule render_empty)
  have "apiTimer (render [] s) = None"
    by (simp add: r t)
  then have "inFlight (elapse d (render [] s)) = inFlight s"
    by (simp add: elapse_idle render_frame)
  moreover have "inFlight s = [] \<longrightarrow> \<not> loading (render [] s)"
    using reachable_quiet [OF assms(1)] by (simp add: render_frame)
  ultimately show ?thesis
    by (simp add: r t results_def cleanup_cells)
qed

theorem empty_query_loading_counterexample:
  "deps clearedWhileInFlight = Some [] \<and>
   loading clearedWhileInFlight \<and>
   map chem_name (results (settle 0 samplePubChem clearedWhileInFlight)) = [''water'']"
  by (simp add: clearedWhileInFlight_eval hook_eval sample_water string_eval)

theorem empty_query_clears_witness:
  "cachedResults (render [] afterWaterThenQqq) = [] \<and>
   apiResults (render [] afterWaterThenQqq) = [] \<and>
   results (render [] afterWaterThenQqq) = [] \<and>
   searchSource (render [] afterWaterThenQqq) = Cache \<and>
   apiTimer (render [] afterWaterThenQqq) = None \<and>
   length (inFlight (elapse 1000 (render [] afterWaterThenQqq))) = 1 \<and>
   loading (render [] afterWaterThenQqq) \<and>
   results (render [] afterWater) = [] \<and>
   inFlight (elapse 1000 (render [] afterWater)) = [] \<and>
   \<not> loading (render [] afterWater)"
proof -
  have "reachable afterWaterThenQqq"
    unfolding afterWaterThenQqq_def run.simps
    by (intro reachable_step reachable_initial)
  moreover have "deps afterWaterThenQqq \<noteq> Some []"
    by (simp add: afterWaterThenQqq_eval)
  moreover have "reachable afterWater"
    unfolding afterWater_def run.simps
    by (intro reachable_step reachable_initial)
  moreover have "deps afterWater \<noteq> Some []"
    by (simp add: afterWater_eval)
  ultimately show ?thesis
    using empty_query_clears [of afterWaterThenQqq 1000]
      empty_query_clears [of afterWater 1000]
    by (simp add: afterWaterThenQqq_eval afterWater_eval)
qed

section \<open>The same query again\<close>

lemma run_first_round:
  assumes "inFlight s = []" and "apiTimer s = None"
  shows "deps (run [Render query, Elapse 200, Settle 0 env] s) = Some query \<and>
         inFlight (run [Render query, Elapse 200, Settle 0 env] s) = [] \<and>
         apiTimer (run [Render query, Elapse 200, Settle 0 env] s) = None"
proof (cases "deps s = Some query")
  case True
  with assms show ?thesis
    by (simp add: render_same elapse_idle settle_none)
next
  case changed: False
  show ?thesis
  proof (cases "query = []")
    case True
    have "apiTimer (cleanup s) = None"
      using assms(2) by (simp add: cleanup_def split: option.splits)
    with True changed assms show ?thesis
      by (simp add: render_empty elapse_idle settle_none cleanup_cells)
  next
    case False
    let ?c = "\<lparr>cl_query = query, cl_cachedResults = cachedResults s\<rparr>"
    let ?r = "render query s"
    have t: "apiTimer ?r = Some (clock s + 200, ?c)"
      using False changed by (simp add: render_query)
    have "clock s + 200 \<le> clock ?r + 200"
      by (simp add: render_frame)
    with t have e: "elapse 200 ?r =
        ?r\<lparr>clock := clock ?r + 200, apiTimer := None, loading := True,
           inFlight := inFlight ?r @ [?c]\<rparr>"
      by (rule elapse_due)
    have d: "deps ?r = Some query"
      using False changed by (simp add: render_query)
    have "inFlight (elapse 200 ?r) = [?c]"
      using assms(1) by (simp add: e render_frame)
    then have "inFlight (settle 0 env (elapse 200 ?r)) = []"
      using settle_some [of 0 "elapse 200 ?r" env] by simp
    moreover have "apiTimer (settle 0 env (elapse 200 ?r)) = None"
      by (simp add: settle_frame e)
    moreover have "deps (settle 0 env (elapse 200 ?r)) = Some query"
      by (simp add: settle_frame elapse_frame d)
    ultimately show ?thesis by simp
  qed
qed

lemma run_append: "run (es @ es') s = run es' (run es s)"
  by (induction es arbitrary: s) simp_all

text \<open>
  C7. From a state at rest, a query is issued and fully resolved (the timeout has run and
  the call has settled). Issuing the same query again changes nothing: the dependency of
  the effect is unchanged, so no effect runs, no timeout is set and no call is issued,
  whatever the remote service would answer then. The results, and the other state cells,
  are the same both times.
\<close>

theorem same_query_again:
  assumes "inFlight s = []" and "apiTimer s = None"
  shows "results (run [Render query, Elapse 200, Settle 0 env,
                       Render query, Elapse 200, Settle 0 env'] s) =
           results (run [Render query, Elapse 200, Settle 0 env] s) \<and>
         searchSource (run [Render query, Elapse 200, Settle 0 env,
                            Render query, Elapse 200, Settle 0 env'] s) =
           searchSource (run [Render query, Elapse 200, Settle 0 env] s) \<and>
         loading (run [Render query, Elapse 200, Settle 0 env,
                       Render query, Elapse 200, Settle 0 env'] s) =
           loading (run [Render query, Elapse 200, Settle 0 env] s)"
proof -
  let ?s1 = "run [Render query, Elapse 200, Settle 0 env] s"
  have split: "run [Render query, Elapse 200, Settle 0 env,
                    Render query, Elapse 200, Settle 0 env'] s =
               run [Render query, Elapse 200, Settle 0 env'] ?s1"
    using run_append [of "[Render query, Elapse 200, Settle 0 env]"
        "[Render query, Elapse 200, Settle 0 env']" s]
    by simp
  have f: "deps ?s1 = Some query" "inFlight ?s1 = []" "apiTimer ?s1 = None"
    using run_first_round [OF assms, of query env] by blast+
  have "run [Render query, Elapse 200, Settle 0 env'] ?s1 = ?s1\<lparr>clock := clock ?s1 + 200\<rparr>"
    using f by (simp add: render_same elapse_idle settle_none)
  then show ?thesis
    unfolding split by (simp add: results_def)
qed

theorem same_query_again_witness:
  "map chem_name (results (run [Render ''water'', Elapse 200, Settle 0 samplePubChem] initial)) =
     [''Water'', ''water''] \<and>
   map chem_name (results (run [Render ''water'', Elapse 200, Settle 0 samplePubChem,
                        Render ''water'', Elapse 200, Settle 0 downPubChem] initial)) =
     [''Water'', ''water'']"
proof -
  have h: "inFlight initial = []" "apiTimer initial = None"
    by (simp_all add: initial_def)
  have "map chem_name
          (results (run [Render ''water'', Elapse 200, Settle 0 samplePubChem] initial)) =
        [''Water'', ''water'']"
    by (simp add: hook_eval sample_water searchCached_water string_eval)
  then show ?thesis
    using same_query_again [OF h, of "''water''" samplePubChem downPubChem]
    by simp
qed

section \<open>Failures of the remote calls\<close>

lemma searchChemicalByName_resolves:
  "\<exists>compounds. searchChemicalByName env nm = Inr compounds"
  by (simp add: searchChemicalByName_def split: sum.splits)

lemma searchChemicalByName_failed:
  "compoundsByName env nm = TransportFailure \<or> compoundsByName env nm = NonSuccess \<Longrightarrow>
   searchChemicalByName env nm = Inr []"
  by (auto simp: searchChemicalByName_def searchChemicalByName_try_def)

lemma autocomplete_failed:
  assumes "\<not> (length query \<le> 2 \<and> shortQueryFiltered query \<noteq> [])"
    and "autocomplete env query limit = TransportFailure \<or>
         autocomplete env query limit = NonSuccess"
  shows "searchChemicalsAutocomplete env query limit = ([GetAutocomplete query limit], Inr [])"
  using assms
  by (auto simp: searchChemicalsAutocomplete_def searchChemicalsAutocomplete_try_def
      autocompletePath_def)

lemma details_failed:
  assumes "\<not> (length query \<le> 2 \<and> shortQueryFiltered query \<noteq> [])"
    and "autocomplete env query limit = Success suggestions"
    and "compoundsByCids env (map snd (resolveCids env (take 20 suggestions))) = TransportFailure \<or>
         compoundsByCids env (map snd (resolveCids env (take 20 suggestions))) = NonSuccess"
  shows "snd (searchChemicalsAutocomplete env query limit) = Inr []"
  using assms
  by (auto simp: searchChemicalsAutocomplete_def searchChemicalsAutocomplete_try_def
      autocompletePath_def Let_def)

lemma short_all_failed:
  assumes "length query \<le> 2" and "shortQueryFiltered query \<noteq> []"
    and "\<forall>nm. compoundsByName env nm = TransportFailure \<or> compoundsByName env nm = NonSuccess"
  shows "snd (searchChemicalsAutocomplete env query limit) = Inr []"
proof -
  have "firstByName env nm = None" for nm
    using assms(3) searchChemicalByName_failed [of env nm] by (simp add: firstByName_def)
  then have "filter (\<lambda>r. r \<noteq> None) (map (firstByName env) names) = []" for names
    by (induction names) simp_all
  with assms(1,2) show ?thesis
    by (simp add: searchChemicalsAutocomplete_def searchChemicalsAutocomplete_try_def
        shortQueryPath_def Let_def)
qed

lemma lookups_failed:
  "(nameToCid env nm = TransportFailure \<or> nameToCid env nm = NonSuccess \<longrightarrow>
      validCid (cidLookup env nm) = []) \<and>
   (compoundsByName env nm = TransportFailure \<or> compoundsByName env nm = NonSuccess \<longrightarrow>
      firstByName env nm = None)"
  by (auto simp: cidLookup_def firstByName_def searchChemicalByName_def
      searchChemicalByName_try_def)

lemma searchAPI_resume_settles:
  "snd (searchAPI_resume c awaited s) = Inr () \<and> \<not> loading (fst (searchAPI_resume c awaited s))"
  by (simp add: searchAPI_resume_def Let_def split: sum.splits)

lemma searchAPI_resume_rejected:
  "fst (searchAPI_resume c (Inl e) s) = s\<lparr>loading := False\<rparr>"
  by (simp add: searchAPI_resume_def)

text \<open>
  C6. Neither \<open>searchChemicalsAutocomplete\<close> nor \<open>searchChemicalByName\<close> ever rejects. A
  by-name lookup that fails gives the empty list; so does the autocomplete path when the
  suggestion request fails or the batched detail request fails, and the short-query path
  when every by-name lookup fails. Within a fan-out, a name whose lookup fails adds
  nothing. \<open>searchAPI\<close> itself settles without an error whatever
  the awaited promise settled to, rejection included, and \<open>loading\<close> is false afterwards;
  so it is after every call in flight that settles.
\<close>

theorem remote_failures_contained:
  "(\<exists>compounds. snd (searchChemicalsAutocomplete env query limit) = Inr compounds) \<and>
   (\<exists>compounds. searchChemicalByName env nm = Inr compounds) \<and>
   (compoundsByName env nm = TransportFailure \<or> compoundsByName env nm = NonSuccess \<longrightarrow>
      searchChemicalByName env nm = Inr []) \<and>
   (\<not> (length query \<le> 2 \<and> shortQueryFiltered query \<noteq> []) \<and>
    (autocomplete env query limit = TransportFailure \<or>
     autocomplete env query limit = NonSuccess) \<longrightarrow>
      snd (searchChemicalsAutocomplete env query limit) = Inr []) \<and>
   (\<forall>suggestions.
      \<not> (length query \<le> 2 \<and> shortQueryFiltered query \<noteq> []) \<and>
      autocomplete env query limit = Success suggestions \<and>
      (compoundsByCids env (map snd (resolveCids env (take 20 suggestions))) = TransportFailure \<or>
       compoundsByCids env (map snd (resolveCids env (take 20 suggestions))) = NonSuccess) \<longrightarrow>
      snd (searchChemicalsAutocomplete env query limit) = Inr []) \<and>
   (length query \<le> 2 \<and> shortQueryFiltered query \<noteq> [] \<and>
    (\<forall>nm'. compoundsByName env nm' = TransportFailure \<or>
            compoundsByName env nm' = NonSuccess) \<longrightarrow>
      snd (searchChemicalsAutocomplete env query limit) = Inr []) \<and>
   (nameToCid env nm = TransportFailure \<or> nameToCid env nm = NonSuccess \<longrightarrow>
      validCid (cidLookup env nm) = []) \<and>
   (compoundsByName env nm = TransportFailure \<or> compoundsByName env nm = NonSuccess \<longrightarrow>
      firstByName env nm = None) \<and>
   snd (searchAPI_resume c awaited s) = Inr () \<and>
   \<not> loading (fst (searchAPI_resume c awaited s)) \<and>
   fst (searchAPI_resume c (Inl e) s) = s\<lparr>loading := False\<rparr> \<and>
   (i < length (inFlight s) \<longrightarrow> \<not> loading (settle i env s))"
  using searchChemicalsAutocomplete_resolves [of env query limit]
    searchChemicalByName_resolves [of env nm]
    searchChemicalByName_failed [of env nm]
    autocomplete_failed [of query env limit]
    details_failed [of query env limit]
    short_all_failed [of query env limit]
    lookups_failed [of env nm]
    searchAPI_resume_settles [of c awaited s]
    searchAPI_resume_rejected [of c e s]
    settle_some [of i s env]
  by (intro conjI allI impI; (elim conjE)?; simp)

theorem remote_failures_contained_witness:
  "snd (searchChemicalsAutocomplete downPubChem ''water'' 50) = Inr [] \<and>
   searchChemicalByName downPubChem ''acetone'' = Inr [] \<and>
   snd (searchChemicalsAutocomplete downPubChem ''a'' 50) = Inr [] \<and>
   snd (searchChemicalsAutocomplete
          (samplePubChem\<lparr>compoundsByCids := \<lambda>cids. NonSuccess\<rparr>) ''water'' 50) = Inr [] \<and>
   \<not> loading (settle 0 downPubChem clearedWhileInFlight) \<and>
   firstByName downPubChem ''acetone'' = None \<and>
   \<not> loading (fst (searchAPI_resume \<lparr>cl_query = ''water'', cl_cachedResults = []\<rparr>
       (Inl FetchError) clearedWhileInFlight))"
proof -
  note t1 = remote_failures_contained
    [of downPubChem "''water''" 50 "''acetone''" "\<lparr>cl_query = ''water'', cl_cachedResults = []\<rparr>"
      "Inl FetchError" clearedWhileInFlight FetchError 0]
  note t2 = remote_failures_contained
    [of downPubChem "''a''" 50 "''acetone''" "\<lparr>cl_query = ''water'', cl_cachedResults = []\<rparr>"
      "Inl FetchError" clearedWhileInFlight FetchError 0]
  note t3 = remote_failures_contained
    [of "samplePubChem\<lparr>compoundsByCids := \<lambda>cids. NonSuccess\<rparr>" "''water''" 50 "''acetone''"
      "\<lparr>cl_query = ''water'', cl_cachedResults = []\<rparr>" "Inl FetchError"
      clearedWhileInFlight FetchError 0]
  have a: "shortQueryFiltered ''a'' \<noteq> []"
    by (simp add: shortQueryFiltered_def commonChemicals_def string_eval)
  have w: "autocomplete (samplePubChem\<lparr>compoundsByCids := \<lambda>cids. NonSuccess\<rparr>) ''water'' 50 =
      Success [''water'']"
    by (simp add: samplePubChem_def sampleCompounds_def string_eval)
  from t1 have "snd (searchChemicalsAutocomplete downPubChem ''water'' 50) = Inr []"
    by (simp add: downPubChem_def)
  moreover from t1 have "searchChemicalByName downPubChem ''acetone'' = Inr []"
    by (simp add: downPubChem_def)
  moreover from t2 a have "snd (searchChemicalsAutocomplete downPubChem ''a'' 50) = Inr []"
    by (simp add: downPubChem_def)
  moreover from t3 w have "snd (searchChemicalsAutocomplete
          (samplePubChem\<lparr>compoundsByCids := \<lambda>cids. NonSuccess\<rparr>) ''water'' 50) = Inr []"
    by simp
  moreover from t1 have "firstByName downPubChem ''acetone'' = None"
    by (simp add: downPubChem_def)
  moreover from t1 have "\<not> loading (settle 0 downPubChem clearedWhileInFlight)"
    by (simp add: clearedWhileInFlight_eval)
  moreover from t1 have
    "\<not> loading (fst (searchAPI_resume \<lparr>cl_query = ''water'', cl_cachedResults = []\<rparr>
       (Inl FetchError) clearedWhileInFlight))"
    by simp
  ultimately show ?thesis
    by simp
qed

section \<open>The duplicates filter reads a stale closure\<close>

text \<open>
  C2, at the run \<open>afterEthanol\<close>. The closure of the call holds the \<open>cachedResults\<close> of the
  render that created it, which are those of the query before (none here), not the ones
  \<open>searchCached\<close> stores for its own query. The compound 702 that the remote service
  returns is therefore kept although the cached results have it: it is in \<open>results\<close> twice,
  and \<open>searchSource\<close> is \<open>Api\<close> although cached results are shown.
\<close>

theorem stale_closure_keeps_cached_identifier:
  "map chem_id (cachedResults afterEthanol) = [''702'', ''887''] \<and>
   map chem_id (apiResults afterEthanol) = [''702''] \<and>
   map chem_id (results afterEthanol) = [''702'', ''887'', ''702''] \<and>
   count_list (map chem_id (results afterEthanol)) ''702'' = 2 \<and>
   searchSource afterEthanol = Api"
  by (simp add: afterEthanol_eval results_def)

section \<open>A query replaced while its call is in flight\<close>

lemma replaced_in_flight:
  assumes "inFlight s = [c1]" and "apiTimer s = None"
    and "query2 \<noteq> []" and "deps s \<noteq> Some query2"
  shows "elapse 200 (render query2 s) =
     s\<lparr>deps := Some query2,
       cachedResults := searchCached query2,
       searchSource := (if searchCached query2 = [] then searchSource s else Cache),
       clock := clock s + 200,
       apiTimer := None,
       loading := True,
       inFlight := [c1, \<lparr>cl_query = query2, cl_cachedResults = cachedResults s\<rparr>]\<rparr>"
proof -
  let ?c = "\<lparr>cl_query = query2, cl_cachedResults = cachedResults s\<rparr>"
  have c: "cleanup s = s"
    using assms(2) by (cases s) (simp add: cleanup_def split: option.splits)
  have r: "render query2 s =
     s\<lparr>deps := Some query2,
       cachedResults := searchCached query2,
       searchSource := (if searchCached query2 = [] then searchSource s else Cache),
       apiTimer := Some (clock s + 200, ?c)\<rparr>"
    using assms(3,4) by (simp add: render_query c)
  have "apiTimer (render query2 s) = Some (clock s + 200, ?c)"
    by (simp add: r)
  moreover have "clock s + 200 \<le> clock (render query2 s) + 200"
    by (simp add: r)
  ultimately have "elapse 200 (render query2 s) =
      (render query2 s)\<lparr>clock := clock (render query2 s) + 200, apiTimer := None,
         loading := True, inFlight := inFlight (render query2 s) @ [?c]\<rparr>"
    by (rule elapse_due)
  then show ?thesis
    using assms(1) by (simp add: r)
qed

text \<open>
  C1, as the code has it. The query \<open>query2\<close> replaces a query whose call, with closure
  \<open>c1\<close>, is in flight; after the timeout the call for \<open>query2\<close> is in flight as well. When
  both have settled, \<open>cachedResults\<close> is that of \<open>query2\<close>, and \<open>apiResults\<close> and
  \<open>searchSource\<close> are those written by the call that settled last, each from its own
  answer and its own closure: the call for \<open>query2\<close> if the other settled first, the
  replaced call if that one settled last. No write of a settling call is guarded.
\<close>

theorem last_settled_call_wins:
  assumes "inFlight s = [c1]" and "apiTimer s = None"
    and "query2 \<noteq> []" and "deps s \<noteq> Some query2"
    and "snd (searchChemicalsAutocomplete env1 (cl_query c1) 50) = Inr compounds1"
    and "snd (searchChemicalsAutocomplete env2 query2 50) = Inr compounds2"
  shows "inFlight (elapse 200 (render query2 s)) =
           [c1, \<lparr>cl_query = query2, cl_cachedResults = cachedResults s\<rparr>] \<and>
         settle 0 env2 (settle 0 env1 (elapse 200 (render query2 s))) =
           s\<lparr>deps := Some query2,
             cachedResults := searchCached query2,
             clock := clock s + 200,
             apiTimer := None,
             inFlight := [],
             apiResults :=
               filter (\<lambda>x. chem_id x \<notin> set (map chem_id (cachedResults s)))
                 (map convertPubChemToChemical compounds2),
             searchSource := (if cachedResults s = [] then Api else Both),
             loading := False\<rparr> \<and>
         settle 0 env1 (settle 1 env2 (elapse 200 (render query2 s))) =
           s\<lparr>deps := Some query2,
             cachedResults := searchCached query2,
             clock := clock s + 200,
             apiTimer := None,
             inFlight := [],
             apiResults :=
               filter (\<lambda>x. chem_id x \<notin> set (map chem_id (cl_cachedResults c1)))
                 (map convertPubChemToChemical compounds1),
             searchSource := (if cl_cachedResults c1 = [] then Api else Both),
             loading := False\<rparr>"
proof -
  let ?c2 = "\<lparr>cl_query = query2, cl_cachedResults = cachedResults s\<rparr>"
  let ?s2 = "elapse 200 (render query2 s)"
  note s2 = replaced_in_flight [OF assms(1-4)]
  have f: "inFlight ?s2 = [c1, ?c2]"
    by (simp add: s2)
  have a1: "settle 0 env1 ?s2 =
      ?s2\<lparr>inFlight := [?c2],
          apiResults :=
            filter (\<lambda>x. chem_id x \<notin> set (map chem_id (cl_cachedResults c1)))
              (map convertPubChemToChemical compounds1),
          searchSource := (if cl_cachedResults c1 = [] then Api else Both),
          loading := False\<rparr>"
    using settle_applies [of 0 ?s2 env1 compounds1] assms(5) by (simp add: f)
  have a2: "settle 0 env2 (settle 0 env1 ?s2) =
      (settle 0 env1 ?s2)\<lparr>inFlight := [],
          apiResults :=
            filter (\<lambda>x. chem_id x \<notin> set (map chem_id (cachedResults s)))
              (map convertPubChemToChemical compounds2),
          searchSource := (if cachedResults s = [] then Api else Both),
          loading := False\<rparr>"
  proof -
    have "inFlight (settle 0 env1 ?s2) = [?c2]"
      unfolding a1 by simp
    then show ?thesis
      using settle_applies [of 0 "settle 0 env1 ?s2" env2 compounds2] assms(6) by simp
  qed
  have b1: "settle 1 env2 ?s2 =
      ?s2\<lparr>inFlight := [c1],
          apiResults :=
            filter (\<lambda>x. chem_id x \<notin> set (map chem_id (cachedResults s)))
              (map convertPubChemToChemical compounds2),
          searchSource := (if cachedResults s = [] then Api else Both),
          loading := False\<rparr>"
    using settle_applies [of 1 ?s2 env2 compounds2] assms(6) by (simp add: f)
  have b2: "settle 0 env1 (settle 1 env2 ?s2) =
      (settle 1 env2 ?s2)\<lparr>inFlight := [],
          apiResults :=
            filter (\<lambda>x. chem_id x \<notin> set (map chem_id (cl_cachedResults c1)))
              (map convertPubChemToChemical compounds1),
          searchSource := (if cl_cachedResults c1 = [] then Api else Both),
          loading := False\<rparr>"
  proof -
    have "inFlight (settle 1 env2 ?s2) = [c1]"
      unfolding b1 by simp
    then show ?thesis
      using settle_applies [of 0 "settle 1 env2 ?s2" env1 compounds1] assms(5) by simp
  qed
  show ?thesis
    unfolding a2 b2 unfolding a1 b1 unfolding s2 by simp
qed

theorem late_result_applied_counterexample:
  "deps waterSettlesLast = Some ''aspirin'' \<and>
   inFlight waterSettlesLast = [] \<and>
   map chem_name (cachedResults waterSettlesLast) = [''Aspirin''] \<and>
   map chem_name (apiResults waterSettlesLast) = [''water''] \<and>
   map chem_name (results waterSettlesLast) = [''Aspirin'', ''water''] \<and>
   apiResults waterSettlesLast \<noteq> apiResults waterSettlesFirst"
  by (simp add: waterSettlesLast_eval waterSettlesFirst_eval results_def)

theorem last_settled_call_wins_witness:
  "inFlight (elapse 200 (render ''aspirin'' waterInFlight)) =
     [\<lparr>cl_query = ''water'', cl_cachedResults = []\<rparr>,
      \<lparr>cl_query = ''aspirin'', cl_cachedResults = searchCached ''water''\<rparr>] \<and>
   map chem_name (cachedResults waterSettlesFirst) = [''Aspirin''] \<and>
   map chem_name (apiResults waterSettlesFirst) = [''aspirin''] \<and>
   searchSource waterSettlesFirst = Both \<and>
   \<not> loading waterSettlesFirst \<and>
   map chem_name (cachedResults waterSettlesLast) = [''Aspirin''] \<and>
   map chem_name (apiResults waterSettlesLast) = [''water''] \<and>
   searchSource waterSettlesLast = Api \<and>
   \<not> loading waterSettlesLast"
proof -
  let ?s = waterInFlight
  let ?c1 = "\<lparr>cl_query = ''water'', cl_cachedResults = []\<rparr>"
  have h: "inFlight ?s = [?c1]" "apiTimer ?s = None" "''aspirin'' \<noteq> []"
    "deps ?s \<noteq> Some ''aspirin''"
    by (simp_all add: waterInFlight_eval)
  have w: "snd (searchChemicalsAutocomplete samplePubChem (cl_query ?c1) 50) =
      Inr [\<lparr>cid = 962, name = ''water'', molecularFormula = ''H2O'',
             molecularWeight = 1802 / 100, iupacName = None, canonicalSmiles = None\<rparr>]"
    by (simp add: sample_water)
  have a: "snd (searchChemicalsAutocomplete samplePubChem ''aspirin'' 50) =
      Inr [\<lparr>cid = 2244, name = ''aspirin'', molecularFormula = ''C9H8O4'',
             molecularWeight = 18016 / 100, iupacName = None, canonicalSmiles = None\<rparr>]"
    by (simp add: sample_aspirin)
  note t = last_settled_call_wins [OF h w a]
  have first: "waterSettlesFirst =
      settle 0 samplePubChem (settle 0 samplePubChem (elapse 200 (render ''aspirin'' ?s)))"
    by (simp add: waterSettlesFirst_def waterInFlight_def)
  have last: "waterSettlesLast =
      settle 0 samplePubChem (settle 1 samplePubChem (elapse 200 (render ''aspirin'' ?s)))"
    by (simp add: waterSettlesLast_def waterInFlight_def)
  show ?thesis
    unfolding first last
    unfolding t [THEN conjunct1] t [THEN conjunct2, THEN conjunct1]
      t [THEN conjunct2, THEN conjunct2]
    by (simp add: waterInFlight_eval searchCached_aspirin searchCached_water
        convertPubChemToChemical_def string_eval)
qed

section \<open>The autocomplete path\<close>

lemma validCid_cidLookup:
  "validCid (cidLookup env nm) =
     (case nameToCid env nm of
        Success (Some c) \<Rightarrow> if c = 0 then [] else [(nm, c)]
      | _ \<Rightarrow> [])"
  by (simp add: cidLookup_def split: response.splits option.splits)

lemma resolveCids_all:
  "resolveCids env names =
     concat (map (\<lambda>nm. case nameToCid env nm of
                          Success (Some c) \<Rightarrow> if c = 0 then [] else [(nm, c)]
                        | _ \<Rightarrow> []) names)"
  by (simp add: resolveCids_def comp_def validCid_cidLookup)

lemma autocompletePath_details:
  assumes "autocomplete env query limit = Success suggestions"
    and "resolveCids env (take 20 suggestions) \<noteq> []"
  shows "fst (autocompletePath env query limit) =
           GetAutocomplete query limit # map GetCid (take 20 suggestions) @
           [GetCompoundsByCids (map snd (resolveCids env (take 20 suggestions)))]"
proof -
  have "suggestions \<noteq> []"
    using assms(2) by (auto simp: resolveCids_def)
  with assms show ?thesis
    by (simp add: autocompletePath_def Let_def split: response.splits)
qed

lemma autocompletePath_success:
  assumes "autocomplete env query limit = Success suggestions"
    and "resolveCids env (take 20 suggestions) \<noteq> []"
    and "compoundsByCids env (map snd (resolveCids env (take 20 suggestions))) = Success compounds"
  shows "snd (autocompletePath env query limit) =
           Inr (map (\<lambda>compound.
                  toPubChemCompound
                    (matchedName (resolveCids env (take 20 suggestions)) (raw_cid compound))
                    compound)
                compounds)"
proof -
  have "suggestions \<noteq> []"
    using assms(2) by (auto simp: resolveCids_def)
  with assms show ?thesis
    by (simp add: autocompletePath_def Let_def)
qed

lemma searchChemicalsAutocomplete_long:
  assumes "\<not> (length query \<le> 2 \<and> shortQueryFiltered query \<noteq> [])"
  shows "fst (searchChemicalsAutocomplete env query limit) =
           fst (autocompletePath env query limit)"
    and "snd (autocompletePath env query limit) = Inr compounds \<Longrightarrow>
         snd (searchChemicalsAutocomplete env query limit) = Inr compounds"
  using assms
  by (auto simp: searchChemicalsAutocomplete_def searchChemicalsAutocomplete_try_def
      split: prod.splits sum.splits)

text \<open>
  C3, as the code has it. On the autocomplete path nothing is deduplicated. Every
  suggested name (of the first twenty) whose lookup gives an identifier that is not 0
  gives one pair, whether or not the identifier was seen before; the identifiers of all
  the pairs, in that order and with their repetitions, are sent in the one batched detail
  request; the result has one record for each compound of the answer, with its
  identifier. So the identifiers of the result are distinct exactly when those of the
  answer are.
\<close>

theorem batched_request_not_deduplicated:
  assumes "\<not> (length query \<le> 2 \<and> shortQueryFiltered query \<noteq> [])"
    and "autocomplete env query limit = Success suggestions"
    and "resolveCids env (take 20 suggestions) \<noteq> []"
  shows "resolveCids env (take 20 suggestions) =
           concat (map (\<lambda>nm. case nameToCid env nm of
                                Success (Some c) \<Rightarrow> if c = 0 then [] else [(nm, c)]
                              | _ \<Rightarrow> [])
                    (take 20 suggestions)) \<and>
         fst (searchChemicalsAutocomplete env query limit) =
           GetAutocomplete query limit # map GetCid (take 20 suggestions) @
           [GetCompoundsByCids (map snd (resolveCids env (take 20 suggestions)))] \<and>
         (\<forall>compounds.
            compoundsByCids env (map snd (resolveCids env (take 20 suggestions))) =
              Success compounds \<longrightarrow>
            (\<exists>found. snd (searchChemicalsAutocomplete env query limit) = Inr found \<and>
                     map cid found = map raw_cid compounds \<and>
                     (distinct (map cid found) \<longleftrightarrow> distinct (map raw_cid compounds))))"
proof -
  have "fst (searchChemicalsAutocomplete env query limit) =
           GetAutocomplete query limit # map GetCid (take 20 suggestions) @
           [GetCompoundsByCids (map snd (resolveCids env (take 20 suggestions)))]"
    using assms by (simp add: searchChemicalsAutocomplete_long autocompletePath_details)
  moreover have "\<exists>found. snd (searchChemicalsAutocomplete env query limit) = Inr found \<and>
                     map cid found = map raw_cid compounds \<and>
                     (distinct (map cid found) \<longleftrightarrow> distinct (map raw_cid compounds))"
    if "compoundsByCids env (map snd (resolveCids env (take 20 suggestions))) =
          Success compounds" for compounds
  proof -
    let ?found = "map (\<lambda>compound.
                  toPubChemCompound
                    (matchedName (resolveCids env (take 20 suggestions)) (raw_cid compound))
                    compound)
                compounds"
    have "snd (searchChemicalsAutocomplete env query limit) = Inr ?found"
      using assms that
      by (simp add: searchChemicalsAutocomplete_long autocompletePath_success)
    moreover have "map cid ?found = map raw_cid compounds"
      by (simp add: toPubChemCompound_def comp_def)
    ultimately show ?thesis by metis
  qed
  ultimately show ?thesis
    using resolveCids_all [of env "take 20 suggestions"] by blast
qed

theorem same_identifier_twice_counterexample:
  "searchChemicalsAutocomplete samplePubChem ''eth'' 50 =
     ([GetAutocomplete ''eth'' 50, GetCid ''ethanol'', GetCid ''ethyl alcohol'',
       GetCompoundsByCids [702, 702]],
      Inr [\<lparr>cid = 702, name = ''ethanol'', molecularFormula = ''C2H6O'',
             molecularWeight = 4607 / 100, iupacName = None, canonicalSmiles = None\<rparr>,
           \<lparr>cid = 702, name = ''ethanol'', molecularFormula = ''C2H6O'',
             molecularWeight = 4607 / 100, iupacName = None, canonicalSmiles = None\<rparr>])"
  by (simp add: service_eval samplePubChem_def sampleCompounds_def string_eval)

theorem batched_request_not_deduplicated_witness:
  "resolveCids samplePubChem [''ethanol'', ''ethyl alcohol''] =
     [(''ethanol'', 702), (''ethyl alcohol'', 702)] \<and>
   fst (searchChemicalsAutocomplete samplePubChem ''eth'' 50) =
     [GetAutocomplete ''eth'' 50, GetCid ''ethanol'', GetCid ''ethyl alcohol'',
      GetCompoundsByCids [702, 702]] \<and>
   (\<exists>found. snd (searchChemicalsAutocomplete samplePubChem ''eth'' 50) = Inr found \<and>
            map cid found = [702, 702] \<and> \<not> distinct (map cid found))"
proof -
  have h1: "\<not> (length ''eth'' \<le> 2 \<and> shortQueryFiltered ''eth'' \<noteq> [])"
    by simp
  have h2: "autocomplete samplePubChem ''eth'' 50 = Success [''ethanol'', ''ethyl alcohol'']"
    by (simp add: samplePubChem_def sampleCompounds_def string_eval)
  have n: "nameToCid samplePubChem ''ethanol'' = Success (Some 702)"
    "nameToCid samplePubChem ''ethyl alcohol'' = Success (Some 702)"
    by (simp_all add: samplePubChem_def sampleCompounds_def rawCompound_def)
  have r: "resolveCids samplePubChem [''ethanol'', ''ethyl alcohol''] =
     [(''ethanol'', 702), (''ethyl alcohol'', 702)]"
    by (simp add: resolveCids_def cidLookup_def n)
  have h3: "resolveCids samplePubChem (take 20 [''ethanol'', ''ethyl alcohol'']) \<noteq> []"
    by (simp add: r)
  have d: "compoundsByCids samplePubChem [702, 702] =
      Success [rawCompound 702 ''C2H6O'' (4607 / 100), rawCompound 702 ''C2H6O'' (4607 / 100)]"
    by (simp add: samplePubChem_def sampleCompounds_def rawCompound_def)
  note t = batched_request_not_deduplicated [OF h1 h2 h3]
  from t have "fst (searchChemicalsAutocomplete samplePubChem ''eth'' 50) =
     [GetAutocomplete ''eth'' 50, GetCid ''ethanol'', GetCid ''ethyl alcohol'',
      GetCompoundsByCids [702, 702]]"
    by (simp add: r)
  moreover from t d have
    "\<exists>found. snd (searchChemicalsAutocomplete samplePubChem ''eth'' 50) = Inr found \<and>
            map cid found = [702, 702] \<and> \<not> distinct (map cid found)"
    by (simp add: r rawCompound_def)
  ultimately show ?thesis
    using r by simp
qed

section \<open>The order and the names of the result\<close>

lemma matchedName_none:
  "c \<notin> snd ` set validCids \<Longrightarrow> matchedName validCids c = ''Compound '' @ toString c"
proof -
  assume "c \<notin> snd ` set validCids"
  then have "find (\<lambda>v. snd v = c) validCids = None"
    by (force simp: find_None_iff)
  then show ?thesis
    by (simp add: matchedName_def)
qed

lemma find_first:
  "\<forall>x \<in> set before. \<not> P x \<Longrightarrow> P y \<Longrightarrow> find P (before @ y # after) = Some y"
  by (induction before) simp_all

lemma matchedName_first:
  assumes "validCids = before @ (nm, c) # after" and "c \<notin> snd ` set before"
  shows "matchedName validCids c = (if nm = [] then ''Compound '' @ toString c else nm)"
proof -
  have "find (\<lambda>v. snd v = c) (before @ (nm, c) # after) = Some (nm, c)"
    using assms(2) by (intro find_first) auto
  then show ?thesis
    by (simp add: matchedName_def assms(1))
qed

text \<open>
  C4, as the code has it. On the autocomplete path, when the batched detail request
  succeeds, the result has one record for each compound of the answer, in the order of
  the answer, with its identifier. The name of a record is that of the first pair of the
  resolver with its identifier when that name is not empty; it is the label made of
  \<open>Compound\<close> and the identifier when no pair has the identifier, and also when the first
  such pair has the empty name.
\<close>

theorem result_in_response_order:
  assumes "\<not> (length query \<le> 2 \<and> shortQueryFiltered query \<noteq> [])"
    and "autocomplete env query limit = Success suggestions"
    and "resolveCids env (take 20 suggestions) = validCids"
    and "validCids \<noteq> []"
    and "compoundsByCids env (map snd validCids) = Success compounds"
  shows "\<exists>found.
           snd (searchChemicalsAutocomplete env query limit) = Inr found \<and>
           map cid found = map raw_cid compounds \<and>
           (\<forall>i < length compounds.
              (\<forall>before nm after.
                  validCids = before @ (nm, raw_cid (compounds ! i)) # after \<and>
                  raw_cid (compounds ! i) \<notin> snd ` set before \<longrightarrow>
                  name (found ! i) =
                    (if nm = [] then ''Compound '' @ toString (raw_cid (compounds ! i))
                     else nm)) \<and>
              (raw_cid (compounds ! i) \<notin> snd ` set validCids \<longrightarrow>
                  name (found ! i) = ''Compound '' @ toString (raw_cid (compounds ! i))))"
proof -
  let ?found = "map (\<lambda>compound.
                  toPubChemCompound (matchedName validCids (raw_cid compound)) compound)
                compounds"
  have "snd (searchChemicalsAutocomplete env query limit) = Inr ?found"
    using assms
    by (simp add: searchChemicalsAutocomplete_long autocompletePath_success)
  moreover have "map cid ?found = map raw_cid compounds"
    by (simp add: toPubChemCompound_def comp_def)
  moreover have
    "(\<forall>before nm after.
        validCids = before @ (nm, raw_cid (compounds ! i)) # after \<and>
        raw_cid (compounds ! i) \<notin> snd ` set before \<longrightarrow>
        name (?found ! i) =
          (if nm = [] then ''Compound '' @ toString (raw_cid (compounds ! i)) else nm)) \<and>
     (raw_cid (compounds ! i) \<notin> snd ` set validCids \<longrightarrow>
        name (?found ! i) = ''Compound '' @ toString (raw_cid (compounds ! i)))"
    if "i < length compounds" for i
  proof -
    have n: "name (?found ! i) = matchedName validCids (raw_cid (compounds ! i))"
      using that by (simp add: toPubChemCompound_def)
    show ?thesis
      unfolding n using matchedName_first matchedName_none by blast
  qed
  ultimately show ?thesis
    by blast
qed

theorem empty_name_counterexample:
  "resolveCids namelessPubChem [[]] = [([], 5)] \<and>
   searchChemicalsAutocomplete namelessPubChem ''num'' 50 =
     ([GetAutocomplete ''num'' 50, GetCid [], GetCompoundsByCids [5]],
      Inr [\<lparr>cid = 5, name = ''Compound 5'', molecularFormula = ''V'',
             molecularWeight = 5, iupacName = None, canonicalSmiles = None\<rparr>])"
  by (simp add: service_eval namelessPubChem_def string_eval)

theorem result_in_response_order_witness:
  "\<exists>found.
     snd (searchChemicalsAutocomplete shuffledPubChem ''num'' 50) = Inr found \<and>
     map cid found = [9, 5, 2, 7] \<and>
     name (found ! 0) = ''nine'' \<and>
     name (found ! 1) = ''five'' \<and>
     name (found ! 2) = ''two'' \<and>
     name (found ! 3) = ''Compound 7''"
proof -
  let ?validCids = "[(''five'', 5), (''two'', 2), (''nine'', 9)] :: (string \<times> nat) list"
  let ?compounds = "[rawCompound 9 ''I'' 9, rawCompound 5 ''V'' 5, rawCompound 2 ''II'' 2,
                     rawCompound 7 ''VII'' 7]"
  have h1: "\<not> (length ''num'' \<le> 2 \<and> shortQueryFiltered ''num'' \<noteq> [])"
    by simp
  have h2: "autocomplete shuffledPubChem ''num'' 50 = Success [''five'', ''two'', ''nine'']"
    by (simp add: shuffledPubChem_def)
  have h3: "resolveCids shuffledPubChem (take 20 [''five'', ''two'', ''nine'']) = ?validCids"
    by (simp add: resolveCids_def cidLookup_def shuffledPubChem_def)
  have h4: "?validCids \<noteq> []"
    by simp
  have h5: "compoundsByCids shuffledPubChem (map snd ?validCids) = Success ?compounds"
    by (simp add: shuffledPubChem_def)
  from result_in_response_order [OF h1 h2 h3 h4 h5]
  obtain found where f: "snd (searchChemicalsAutocomplete shuffledPubChem ''num'' 50) = Inr found"
    and c: "map cid found = map raw_cid ?compounds"
    and n: "\<forall>i < length ?compounds.
              (\<forall>before nm after.
                  ?validCids = before @ (nm, raw_cid (?compounds ! i)) # after \<and>
                  raw_cid (?compounds ! i) \<notin> snd ` set before \<longrightarrow>
                  name (found ! i) =
                    (if nm = [] then ''Compound '' @ toString (raw_cid (?compounds ! i))
                     else nm)) \<and>
              (raw_cid (?compounds ! i) \<notin> snd ` set ?validCids \<longrightarrow>
                  name (found ! i) = ''Compound '' @ toString (raw_cid (?compounds ! i)))"
    by blast
  have "map cid found = [9, 5, 2, 7]"
    using c by (simp add: rawCompound_def)
  moreover have "name (found ! 0) = ''nine''"
    using n [rule_format, of 0, THEN conjunct1, rule_format,
        of "[(''five'', 5), (''two'', 2)]" "''nine''" "[]"]
    by (simp add: rawCompound_def)
  moreover have "name (found ! 1) = ''five''"
    using n [rule_format, of 1, THEN conjunct1, rule_format,
        of "[]" "''five''" "[(''two'', 2), (''nine'', 9)]"]
    by (simp add: rawCompound_def)
  moreover have "name (found ! 2) = ''two''"
    using n [rule_format, of 2, THEN conjunct1, rule_format,
        of "[(''five'', 5)]" "''two''" "[(''nine'', 9)]"]
    by (simp add: rawCompound_def)
  moreover have "name (found ! 3) = ''Compound 7''"
    using n [rule_format, of 3, THEN conjunct2]
    by (simp add: rawCompound_def string_eval)
  ultimately show ?thesis
    using f by (intro exI [of _ found]) simp
qed

section \<open>The short-query path\<close>

lemma firstByName_cases:
  "firstByName env nm =
     (case compoundsByName env nm of
        Success (compound # rest) \<Rightarrow> Some (toPubChemCompound nm compound)
      | _ \<Rightarrow> None)"
  by (simp add: firstByName_def searchChemicalByName_def searchChemicalByName_try_def
      split: response.splits list.splits)

lemma found_by_name:
  "map the (filter (\<lambda>r. r \<noteq> None) (map (firstByName env) names)) =
     concat (map (\<lambda>nm. case compoundsByName env nm of
                          Success (compound # rest) \<Rightarrow> [toPubChemCompound nm compound]
                        | _ \<Rightarrow> []) names)"
  by (induction names) (simp_all add: firstByName_cases split: response.splits list.splits)

lemma found_by_name_names:
  "set (map name
         (concat (map (\<lambda>nm. case compoundsByName env nm of
                               Success (compound # rest) \<Rightarrow> [toPubChemCompound nm compound]
                             | _ \<Rightarrow> []) names))) \<subseteq> set names"
  by (induction names)
    (auto simp: toPubChemCompound_def split: response.splits list.splits)

lemma short_path:
  assumes "length query \<le> 2" and "shortQueryFiltered query \<noteq> []"
  shows "searchChemicalsAutocomplete env query limit =
     (map GetCompoundsByName (take 10 (shortQueryFiltered query)),
      Inr (concat (map (\<lambda>nm. case compoundsByName env nm of
                                Success (compound # rest) \<Rightarrow> [toPubChemCompound nm compound]
                              | _ \<Rightarrow> [])
                    (take 10 (shortQueryFiltered query)))))"
proof -
  have "searchChemicalsAutocomplete_try env query limit =
      shortQueryPath env (shortQueryFiltered query)"
    using assms by (simp add: searchChemicalsAutocomplete_try_def)
  then show ?thesis
    unfolding searchChemicalsAutocomplete_def shortQueryPath_def Let_def found_by_name
    by simp
qed

lemma fall_through:
  assumes "shortQueryFiltered query = []"
  shows "searchChemicalsAutocomplete env query limit =
     (case autocompletePath env query limit of
        (calls, Inl e) \<Rightarrow> (calls, Inr [])
      | (calls, Inr compounds) \<Rightarrow> (calls, Inr compounds))"
  using assms
  by (simp add: searchChemicalsAutocomplete_def searchChemicalsAutocomplete_try_def)

lemma shortQueryFiltered_one:
  "shortQueryFiltered [c] =
     (case map_of commonChemicals (toLowerChar c) of Some l \<Rightarrow> l | None \<Rightarrow> [])"
  by (simp add: shortQueryFiltered_def toLowerCase_def)

lemma shortQueryFiltered_two:
  "shortQueryFiltered [c, d] =
     filter (\<lambda>s. prefix [toLowerChar c, toLowerChar d] (toLowerCase s))
       (case map_of commonChemicals (toLowerChar c) of Some l \<Rightarrow> l | None \<Rightarrow> [])"
  by (simp add: shortQueryFiltered_def toLowerCase_def startsWith_def)

lemma shortQueryFiltered_a:
  "shortQueryFiltered ''a'' =
     [''acetone'', ''ammonia'', ''aspirin'', ''acetic acid'', ''acetaminophen'', ''argon'',
      ''arsenic'']"
  by (simp add: shortQueryFiltered_def commonChemicals_def string_eval)

text \<open>
  C5. A query of one character takes the list of the table for its lower-cased
  character; a query of two takes the entries of that list whose lower-cased text starts
  with the lower-cased query; a character without entry gives no list. When the list is
  not empty, its first ten names are looked up one by one, in order, and nothing else is
  requested; the result has, for each name whose lookup succeeds with at least one
  compound, the first compound under that name, and nothing for the other names. When the
  list is empty the function continues with the autocomplete path. For the query \<open>a\<close> the
  seven names of the table are looked up, and each name of the result is one of them.
\<close>

theorem short_query_uses_table:
  assumes "length query = 1 \<or> length query = 2"
  shows "(\<forall>c. query = [c] \<longrightarrow>
            shortQueryFiltered query =
              (case map_of commonChemicals (toLowerChar c) of Some l \<Rightarrow> l | None \<Rightarrow> [])) \<and>
         (\<forall>c d. query = [c, d] \<longrightarrow>
            shortQueryFiltered query =
              filter (\<lambda>s. prefix [toLowerChar c, toLowerChar d] (toLowerCase s))
                (case map_of commonChemicals (toLowerChar c) of Some l \<Rightarrow> l | None \<Rightarrow> [])) \<and>
         (shortQueryFiltered query \<noteq> [] \<longrightarrow>
            searchChemicalsAutocomplete env query limit =
              (map GetCompoundsByName (take 10 (shortQueryFiltered query)),
               Inr (concat (map (\<lambda>nm. case compoundsByName env nm of
                                  Success (compound # rest) \<Rightarrow> [toPubChemCompound nm compound]
                                | _ \<Rightarrow> [])
                             (take 10 (shortQueryFiltered query)))))) \<and>
         (shortQueryFiltered query = [] \<longrightarrow>
            searchChemicalsAutocomplete env query limit =
              (case autocompletePath env query limit of
                 (calls, Inl e) \<Rightarrow> (calls, Inr [])
               | (calls, Inr compounds) \<Rightarrow> (calls, Inr compounds))) \<and>
         fst (searchChemicalsAutocomplete env ''a'' limit) =
           map GetCompoundsByName
             [''acetone'', ''ammonia'', ''aspirin'', ''acetic acid'', ''acetaminophen'',
              ''argon'', ''arsenic''] \<and>
         (\<forall>found. snd (searchChemicalsAutocomplete env ''a'' limit) = Inr found \<longrightarrow>
            set (map name found) \<subseteq>
              set [''acetone'', ''ammonia'', ''aspirin'', ''acetic acid'', ''acetaminophen'',
                   ''argon'', ''arsenic''])"
proof -
  have le: "length query \<le> 2"
    using assms by auto
  have a: "searchChemicalsAutocomplete env ''a'' limit =
     (map GetCompoundsByName
        [''acetone'', ''ammonia'', ''aspirin'', ''acetic acid'', ''acetaminophen'',
         ''argon'', ''arsenic''],
      Inr (concat (map (\<lambda>nm. case compoundsByName env nm of
                                Success (compound # rest) \<Rightarrow> [toPubChemCompound nm compound]
                              | _ \<Rightarrow> [])
                    [''acetone'', ''ammonia'', ''aspirin'', ''acetic acid'',
                     ''acetaminophen'', ''argon'', ''arsenic''])))"
    using short_path [of "''a''" env limit] by (simp add: shortQueryFiltered_a)
  have names: "set (map name found) \<subseteq>
      set [''acetone'', ''ammonia'', ''aspirin'', ''acetic acid'', ''acetaminophen'',
           ''argon'', ''arsenic'']"
    if "snd (searchChemicalsAutocomplete env ''a'' limit) = Inr found" for found
  proof -
    have "found = concat (map (\<lambda>nm. case compoundsByName env nm of
                                Success (compound # rest) \<Rightarrow> [toPubChemCompound nm compound]
                              | _ \<Rightarrow> [])
                    [''acetone'', ''ammonia'', ''aspirin'', ''acetic acid'',
                     ''acetaminophen'', ''argon'', ''arsenic''])"
      using that unfolding a by simp
    then show ?thesis
      using found_by_name_names
        [of env "[''acetone'', ''ammonia'', ''aspirin'', ''acetic acid'',
                  ''acetaminophen'', ''argon'', ''arsenic'']"]
      by simp
  qed
  have one: "\<forall>c. query = [c] \<longrightarrow>
            shortQueryFiltered query =
              (case map_of commonChemicals (toLowerChar c) of Some l \<Rightarrow> l | None \<Rightarrow> [])"
    using shortQueryFiltered_one by blast
  have two: "\<forall>c d. query = [c, d] \<longrightarrow>
            shortQueryFiltered query =
              filter (\<lambda>s. prefix [toLowerChar c, toLowerChar d] (toLowerCase s))
                (case map_of commonChemicals (toLowerChar c) of Some l \<Rightarrow> l | None \<Rightarrow> [])"
    using shortQueryFiltered_two by blast
  have f: "fst (searchChemicalsAutocomplete env ''a'' limit) =
           map GetCompoundsByName
             [''acetone'', ''ammonia'', ''aspirin'', ''acetic acid'', ''acetaminophen'',
              ''argon'', ''arsenic'']"
    unfolding a by simp
  show ?thesis
    using one two short_path [OF le, of env limit] fall_through [of query env limit] f names
    by (intro conjI impI allI) blast+
qed

theorem short_query_uses_table_witness:
  "shortQueryFiltered ''AC'' = [''acetone'', ''acetic acid'', ''acetaminophen''] \<and>
   searchChemicalsAutocomplete patchyPubChem ''AC'' 50 =
     ([GetCompoundsByName ''acetone'', GetCompoundsByName ''acetic acid'',
       GetCompoundsByName ''acetaminophen''],
      Inr [\<lparr>cid = 180, name = ''acetone'', molecularFormula = ''C3H6O'',
             molecularWeight = 5808 / 100, iupacName = None, canonicalSmiles = None\<rparr>]) \<and>
   shortQueryFiltered ''z'' = [] \<and>
   searchChemicalsAutocomplete patchyPubChem ''z'' 50 = ([GetAutocomplete ''z'' 50], Inr []) \<and>
   searchChemicalsAutocomplete patchyPubChem ''a'' 50 =
     (map GetCompoundsByName
        [''acetone'', ''ammonia'', ''aspirin'', ''acetic acid'', ''acetaminophen'',
         ''argon'', ''arsenic''],
      Inr [\<lparr>cid = 180, name = ''acetone'', molecularFormula = ''C3H6O'',
             molecularWeight = 5808 / 100, iupacName = None, canonicalSmiles = None\<rparr>,
           \<lparr>cid = 2244, name = ''aspirin'', molecularFormula = ''C9H8O4'',
             molecularWeight = 18016 / 100, iupacName = None, canonicalSmiles = None\<rparr>])"
proof -
  have h2: "length ''AC'' = 1 \<or> length ''AC'' = 2"
    by simp
  have h1: "length ''z'' = 1 \<or> length ''z'' = 2"
    by simp
  have ha: "length ''a'' = 1 \<or> length ''a'' = 2"
    by simp
  note t2 = short_query_uses_table [OF h2, of patchyPubChem 50]
  note t1 = short_query_uses_table [OF h1, of patchyPubChem 50]
  note ta = short_query_uses_table [OF ha, of patchyPubChem 50]
  have f2: "shortQueryFiltered ''AC'' = [''acetone'', ''acetic acid'', ''acetaminophen'']"
    using t2 [THEN conjunct2, THEN conjunct1, rule_format, of "CHR ''A''" "CHR ''C''"]
    by (simp add: commonChemicals_def string_eval)
  have f1: "shortQueryFiltered ''z'' = []"
    using t1 [THEN conjunct1, rule_format, of "CHR ''z''"]
    by (simp add: commonChemicals_def string_eval)
  have fa: "shortQueryFiltered ''a'' =
      [''acetone'', ''ammonia'', ''aspirin'', ''acetic acid'', ''acetaminophen'', ''argon'',
       ''arsenic'']"
    using ta [THEN conjunct1, rule_format, of "CHR ''a''"]
    by (simp add: commonChemicals_def string_eval)
  have r2: "searchChemicalsAutocomplete patchyPubChem ''AC'' 50 =
     ([GetCompoundsByName ''acetone'', GetCompoundsByName ''acetic acid'',
       GetCompoundsByName ''acetaminophen''],
      Inr [\<lparr>cid = 180, name = ''acetone'', molecularFormula = ''C3H6O'',
             molecularWeight = 5808 / 100, iupacName = None, canonicalSmiles = None\<rparr>])"
    using t2 [THEN conjunct2, THEN conjunct2, THEN conjunct1]
    by (simp add: f2 patchyPubChem_def toPubChemCompound_def propSval_def propFval_def
        rawCompound_def)
  have r1: "searchChemicalsAutocomplete patchyPubChem ''z'' 50 =
      ([GetAutocomplete ''z'' 50], Inr [])"
    using t1 [THEN conjunct2, THEN conjunct2, THEN conjunct2, THEN conjunct1]
    by (simp add: f1 patchyPubChem_def autocompletePath_def)
  have ra: "searchChemicalsAutocomplete patchyPubChem ''a'' 50 =
     (map GetCompoundsByName
        [''acetone'', ''ammonia'', ''aspirin'', ''acetic acid'', ''acetaminophen'',
         ''argon'', ''arsenic''],
      Inr [\<lparr>cid = 180, name = ''acetone'', molecularFormula = ''C3H6O'',
             molecularWeight = 5808 / 100, iupacName = None, canonicalSmiles = None\<rparr>,
           \<lparr>cid = 2244, name = ''aspirin'', molecularFormula = ''C9H8O4'',
             molecularWeight = 18016 / 100, iupacName = None, canonicalSmiles = None\<rparr>])"
    using ta [THEN conjunct2, THEN conjunct2, THEN conjunct1]
    by (simp add: fa patchyPubChem_def toPubChemCompound_def propSval_def propFval_def
        rawCompound_def)
  from f2 r2 f1 r1 ra show ?thesis
    by simp
qed

end
